theory Spec2Isabelle
  imports Complex_Main
begin

section \<open>JavaScript values\<close>

text \<open>
  A JavaScript string is a sequence of UTF-16 code units; a code unit is a natural number
  here, so the regular-expression classes below are the classes of ECMAScript, not of a
  byte encoding.
\<close>

type_synonym jsstring = "nat list"

definition js :: "string \<Rightarrow> jsstring" where
  "js s = map of_char s"

text \<open>
  The values that the program meets as records, field values and inherited properties:
  the values of JSON, whose numbers are finite, \<^verbatim>\<open>undefined\<close>, and functions, of which
  the program only tests that they are truthy.
\<close>

datatype jsvalue =
    JUndefined
  | JNull
  | JBool bool
  | JNumber real
  | JString jsstring
  | JArray "jsvalue list"
  | JObject "(jsstring \<times> jsvalue) list"
  | JFunction

text \<open>ToBoolean: what \<^verbatim>\<open>!v\<close>, \<^verbatim>\<open>v || d\<close> and \<^verbatim>\<open>if (v)\<close> test.\<close>

fun truthy :: "jsvalue \<Rightarrow> bool" where
  "truthy JUndefined = False"
| "truthy JNull = False"
| "truthy (JBool b) = b"
| "truthy (JNumber r) = (r \<noteq> 0)"
| "truthy (JString s) = (s \<noteq> [])"
| "truthy (JArray _) = True"
| "truthy (JObject _) = True"
| "truthy JFunction = True"

datatype error =
    TypeError
  | IndexNotFound
  | ModelInitializationFailure
  | EmbeddingGenerationFailure

section \<open>Numbers\<close>

text \<open>
  A number of the program is an IEEE double.  Here it is a real number, \<^verbatim>\<open>NaN\<close>, or one
  of the two infinities: the arithmetic on finite numbers is exact (no rounding and no
  overflow), and the rules for \<^verbatim>\<open>NaN\<close> and the infinities are those of IEEE 754.  The
  two zeros are one number; where a sign of zero would matter (a finite number divided by
  zero) the zero is taken as \<^verbatim>\<open>+0\<close>.

  The keyword scores, which come from a library that can return \<^verbatim>\<open>NaN\<close>, and every
  number computed from them are of this type.  The embedding vectors, the weights and
  the threshold are finite numbers (the vectors are read from JSON, which has no other
  numbers), so they and the similarities computed from them are real numbers.
\<close>

datatype jsnum = Num real | NaN | PosInfinity | NegInfinity

fun js_neg :: "jsnum \<Rightarrow> jsnum" where
  "js_neg (Num a) = Num (- a)"
| "js_neg NaN = NaN"
| "js_neg PosInfinity = NegInfinity"
| "js_neg NegInfinity = PosInfinity"

fun js_add :: "jsnum \<Rightarrow> jsnum \<Rightarrow> jsnum" where
  "js_add (Num a) (Num b) = Num (a + b)"
| "js_add NaN _ = NaN"
| "js_add _ NaN = NaN"
| "js_add PosInfinity NegInfinity = NaN"
| "js_add NegInfinity PosInfinity = NaN"
| "js_add PosInfinity _ = PosInfinity"
| "js_add _ PosInfinity = PosInfinity"
| "js_add NegInfinity _ = NegInfinity"
| "js_add _ NegInfinity = NegInfinity"

definition js_sub :: "jsnum \<Rightarrow> jsnum \<Rightarrow> jsnum" where
  "js_sub a b = js_add a (js_neg b)"

fun js_mul :: "jsnum \<Rightarrow> jsnum \<Rightarrow> jsnum" where
  "js_mul (Num a) (Num b) = Num (a * b)"
| "js_mul NaN _ = NaN"
| "js_mul _ NaN = NaN"
| "js_mul PosInfinity (Num b) = (if b = 0 then NaN else if 0 < b then PosInfinity else NegInfinity)"
| "js_mul NegInfinity (Num b) = (if b = 0 then NaN else if 0 < b then NegInfinity else PosInfinity)"
| "js_mul (Num a) PosInfinity = (if a = 0 then NaN else if 0 < a then PosInfinity else NegInfinity)"
| "js_mul (Num a) NegInfinity = (if a = 0 then NaN else if 0 < a then NegInfinity else PosInfinity)"
| "js_mul PosInfinity PosInfinity = PosInfinity"
| "js_mul PosInfinity NegInfinity = NegInfinity"
| "js_mul NegInfinity PosInfinity = NegInfinity"
| "js_mul NegInfinity NegInfinity = PosInfinity"

fun js_div :: "jsnum \<Rightarrow> jsnum \<Rightarrow> jsnum" where
  "js_div (Num a) (Num b) =
     (if b \<noteq> 0 then Num (a / b)
      else if a = 0 then NaN else if 0 < a then PosInfinity else NegInfinity)"
| "js_div NaN _ = NaN"
| "js_div _ NaN = NaN"
| "js_div (Num a) PosInfinity = Num 0"
| "js_div (Num a) NegInfinity = Num 0"
| "js_div PosInfinity (Num b) = (if 0 \<le> b then PosInfinity else NegInfinity)"
| "js_div NegInfinity (Num b) = (if 0 \<le> b then NegInfinity else PosInfinity)"
| "js_div PosInfinity _ = NaN"
| "js_div NegInfinity _ = NaN"

text \<open>\<^verbatim>\<open>a >= b\<close>: false when either side is \<^verbatim>\<open>NaN\<close>.\<close>

fun js_ge :: "jsnum \<Rightarrow> jsnum \<Rightarrow> bool" where
  "js_ge (Num a) (Num b) = (b \<le> a)"
| "js_ge NaN _ = False"
| "js_ge _ NaN = False"
| "js_ge PosInfinity _ = True"
| "js_ge _ NegInfinity = True"
| "js_ge NegInfinity _ = False"
| "js_ge _ PosInfinity = False"

text \<open>\<^verbatim>\<open>a > b\<close> and \<^verbatim>\<open>a < b\<close>.\<close>

definition js_gt :: "jsnum \<Rightarrow> jsnum \<Rightarrow> bool" where
  "js_gt a b \<longleftrightarrow> js_ge a b \<and> \<not> js_ge b a"

definition js_lt :: "jsnum \<Rightarrow> jsnum \<Rightarrow> bool" where
  "js_lt a b \<longleftrightarrow> js_gt b a"

text \<open>ToBoolean on a number: zero and \<^verbatim>\<open>NaN\<close> are falsy.\<close>

fun js_truthy :: "jsnum \<Rightarrow> bool" where
  "js_truthy (Num a) = (a \<noteq> 0)"
| "js_truthy NaN = False"
| "js_truthy PosInfinity = True"
| "js_truthy NegInfinity = True"

text \<open>\<^verbatim>\<open>x || d\<close> on numbers: \<open>d\<close> when \<open>x\<close> is falsy.\<close>

definition or_else :: "jsnum \<Rightarrow> jsnum \<Rightarrow> jsnum" where
  "or_else x d = (if js_truthy x then x else d)"

text \<open>
  \<^verbatim>\<open>Math.max(...xs)\<close>: \<^verbatim>\<open>-Infinity\<close> for no arguments, \<^verbatim>\<open>NaN\<close> as soon as one argument
  is \<^verbatim>\<open>NaN\<close>.
\<close>

fun js_max :: "jsnum \<Rightarrow> jsnum \<Rightarrow> jsnum" where
  "js_max NaN _ = NaN"
| "js_max _ NaN = NaN"
| "js_max a b = (if js_ge a b then a else b)"

definition Math_max :: "jsnum list \<Rightarrow> jsnum" where
  "Math_max xs = foldr js_max xs NegInfinity"

section \<open>String built-ins used by the preprocessing pipeline\<close>

text \<open>\<^verbatim>\<open>\w\<close> without the unicode flag: \<^verbatim>\<open>[A-Za-z0-9_]\<close>.\<close>

definition is_word_char :: "nat \<Rightarrow> bool" where
  "is_word_char c \<longleftrightarrow>
     (48 \<le> c \<and> c \<le> 57) \<or> (65 \<le> c \<and> c \<le> 90) \<or> c = 95 \<or> (97 \<le> c \<and> c \<le> 122)"

text \<open>
  \<^verbatim>\<open>\s\<close>: the WhiteSpace and LineTerminator code points of ECMAScript (tab, line feed,
  vertical tab, form feed, carriage return, space, no-break space, U+1680,
  U+2000 to U+200A, U+2028, U+2029, U+202F, U+205F, U+3000, U+FEFF).
\<close>

definition is_space_char :: "nat \<Rightarrow> bool" where
  "is_space_char c \<longleftrightarrow>
     (9 \<le> c \<and> c \<le> 13) \<or> c = 32 \<or> c = 160 \<or> c = 5760 \<or> (8192 \<le> c \<and> c \<le> 8202)
     \<or> c = 8232 \<or> c = 8233 \<or> c = 8239 \<or> c = 8287 \<or> c = 12288 \<or> c = 65279"

text \<open>An alphanumeric character in the sense of the specification: a letter or a digit.\<close>

definition is_alphanumeric :: "nat \<Rightarrow> bool" where
  "is_alphanumeric c \<longleftrightarrow>
     (48 \<le> c \<and> c \<le> 57) \<or> (65 \<le> c \<and> c \<le> 90) \<or> (97 \<le> c \<and> c \<le> 122)"

text \<open>\<^verbatim>\<open>s.replace(/[^\w\s]/g, ' ')\<close>\<close>

definition replace_special :: "jsstring \<Rightarrow> jsstring" where
  "replace_special s = map (\<lambda>c. if \<not> is_word_char c \<and> \<not> is_space_char c then 32 else c) s"

text \<open>\<^verbatim>\<open>s.replace(/\s+/g, ' ')\<close>: every maximal run of whitespace becomes one space.\<close>

function replace_space_runs :: "jsstring \<Rightarrow> jsstring" where
  "replace_space_runs [] = []"
| "replace_space_runs (c # cs) =
     (if is_space_char c then 32 # replace_space_runs (dropWhile is_space_char cs)
      else c # replace_space_runs cs)"
  by pat_completeness auto
termination
  by (relation "measure length") (auto simp: length_dropWhile_le le_imp_less_Suc)

text \<open>\<^verbatim>\<open>s.trim()\<close>\<close>

definition trim :: "jsstring \<Rightarrow> jsstring" where
  "trim s = rev (dropWhile is_space_char (rev (dropWhile is_space_char s)))"

text \<open>\<^verbatim>\<open>parts.join(' ')\<close>\<close>

fun join_space :: "jsstring list \<Rightarrow> jsstring" where
  "join_space [] = []"
| "join_space [p] = p"
| "join_space (p # q # ps) = p @ 32 # join_space (q # ps)"

text \<open>\<^verbatim>\<open>s.split(' ')\<close>: the empty string splits into one empty part.\<close>

fun split_space_acc :: "jsstring \<Rightarrow> jsstring \<Rightarrow> jsstring list" where
  "split_space_acc part [] = [rev part]"
| "split_space_acc part (c # cs) =
     (if c = 32 then rev part # split_space_acc [] cs else split_space_acc (c # part) cs)"

definition split_space :: "jsstring \<Rightarrow> jsstring list" where
  "split_space s = split_space_acc [] s"

section \<open>External collaborators\<close>

text \<open>
  The libraries and services the program calls are parameters: the theorems hold for
  every choice of them.  A call that can throw or reject returns \<open>None\<close> when it does
  (what it throws is an \<^verbatim>\<open>Error\<close> object, whose message the handlers log).
  \<^item> \<open>toLowerCase\<close>: \<^verbatim>\<open>String.prototype.toLowerCase\<close> (a Unicode table);
  \<^item> \<open>tokenize\<close>: \<^verbatim>\<open>natural.WordTokenizer.tokenize\<close>;
  \<^item> \<open>removeStopwords\<close>: the \<^verbatim>\<open>stopword\<close> package;
  \<^item> \<open>stem\<close>: \<^verbatim>\<open>morpha.stem\<close>;
  \<^item> \<open>featureExtraction\<close>: the embedding provider, given a model id (\<open>None\<close> when the
    program passes \<^verbatim>\<open>undefined\<close>) and a text;
  \<^item> \<open>latency\<close>: when the provider's answer for the text in a given output slot arrives;
  \<^item> \<open>similarity\<close>: the \<^verbatim>\<open>similarity\<close> package;
  \<^item> \<open>lookupSynonyms\<close>: \<^verbatim>\<open>natural.WordNet.lookupSynonyms\<close>, the synonym lists of the
    synsets found;
  \<^item> \<open>import_word2vec\<close>: whether the dynamic import of \<^verbatim>\<open>word2vec\<close> succeeds;
  \<^item> \<open>JSON_parse\<close>: the JSON decoder;
  \<^item> \<open>builtin_property\<close>: the property that the engine finds on a value that has no own
    property of that name from the program or from JSON, which is an inherited one (for
    a plain object \<^verbatim>\<open>constructor\<close>, \<^verbatim>\<open>toString\<close>, \<^verbatim>\<open>__proto__\<close> and the other properties
    of \<^verbatim>\<open>Object.prototype\<close>) or an index or the length of a string or an array;
    \<^verbatim>\<open>undefined\<close> when there is none;
  \<^item> \<open>now\<close> and \<open>basename\<close>: the clock and \<^verbatim>\<open>path.basename\<close>.
\<close>

record runtime =
  toLowerCase :: "jsstring \<Rightarrow> jsstring"
  tokenize :: "jsstring \<Rightarrow> jsstring list"
  removeStopwords :: "jsstring list \<Rightarrow> jsstring list"
  stem :: "jsstring \<Rightarrow> jsstring option"
  featureExtraction :: "jsstring option \<Rightarrow> jsstring \<Rightarrow> real list option"
  latency :: "nat \<Rightarrow> jsstring \<Rightarrow> nat"
  similarity :: "jsstring \<Rightarrow> jsstring \<Rightarrow> real"
  lookupSynonyms :: "jsstring \<Rightarrow> jsstring list list option"
  import_word2vec :: bool
  JSON_parse :: "jsstring \<Rightarrow> jsvalue option"
  builtin_property :: "jsvalue \<Rightarrow> jsstring \<Rightarrow> jsvalue"
  now :: jsstring
  basename :: "jsstring \<Rightarrow> jsstring"

text \<open>
  \<^verbatim>\<open>entry[field]\<close> on a value: reading a property of \<^verbatim>\<open>null\<close> or \<^verbatim>\<open>undefined\<close>
  raises a TypeError; an object, the list of its own properties with each key once,
  answers with its own property of that name when it has one; every other read is the
  engine's answer (an inherited property, an index or the length of a string or an
  array, or \<^verbatim>\<open>undefined\<close>).
\<close>

fun get_property :: "runtime \<Rightarrow> jsvalue \<Rightarrow> jsstring \<Rightarrow> error + jsvalue" where
  "get_property rt JNull field = Inl TypeError"
| "get_property rt JUndefined field = Inl TypeError"
| "get_property rt (JObject kvs) field =
     (case map_of kvs field of
        None \<Rightarrow> Inr (builtin_property rt (JObject kvs) field)
      | Some v \<Rightarrow> Inr v)"
| "get_property rt v field = Inr (builtin_property rt v field)"

section \<open>Text preprocessing (indexer.js and searcher.js)\<close>

text \<open>
  The value of the variable \<^verbatim>\<open>processed\<close> after lower-casing and the three string
  operations of \<^verbatim>\<open>preprocessText\<close>, which is what the tokenizer receives.
\<close>

definition processed :: "runtime \<Rightarrow> jsstring \<Rightarrow> jsstring" where
  "processed rt text = trim (replace_space_runs (replace_special (toLowerCase rt text)))"

text \<open>The lemmatizer call inside its try block: the token itself when \<open>stem\<close> throws.\<close>

definition lemmatize :: "runtime \<Rightarrow> jsstring \<Rightarrow> jsstring" where
  "lemmatize rt token = (case stem rt token of Some lemma \<Rightarrow> lemma | None \<Rightarrow> token)"

text \<open>
  \<^verbatim>\<open>preprocessText\<close> of indexer.js.  The argument is a value: a falsy one gives the empty
  string, and a truthy one that is no string has no \<^verbatim>\<open>toLowerCase\<close> method.
\<close>

definition indexer_preprocessText :: "runtime \<Rightarrow> jsvalue \<Rightarrow> error + jsstring" where
  "indexer_preprocessText rt text =
     (if \<not> truthy text then Inr []
      else case text of
        JString s \<Rightarrow>
          (let tokens = tokenize rt (processed rt s);
               filteredTokens = removeStopwords rt tokens;
               lemmatizedTokens = map (lemmatize rt) filteredTokens
           in Inr (join_space lemmatizedTokens))
      | _ \<Rightarrow> Inl TypeError)"

text \<open>
  \<^verbatim>\<open>preprocessText\<close> of searcher.js.  Each module creates its own tokenizer, of the same
  class and without state: both are the function \<open>tokenize\<close>.
\<close>

definition searcher_preprocessText :: "runtime \<Rightarrow> jsvalue \<Rightarrow> error + jsstring" where
  "searcher_preprocessText rt text =
     (if \<not> truthy text then Inr []
      else case text of
        JString s \<Rightarrow>
          (let tokens = tokenize rt (processed rt s);
               filteredTokens = removeStopwords rt tokens;
               lemmatizedTokens = map (lemmatize rt) filteredTokens
           in Inr (join_space lemmatizedTokens))
      | _ \<Rightarrow> Inl TypeError)"

section \<open>Model loading (indexer.js and searcher.js, the same text in both)\<close>

text \<open>
  What the program reads of a loaded model is its property \<^verbatim>\<open>modelId\<close>: the identifier
  of a configuration \<^verbatim>\<open>{ modelId }\<close> that \<^verbatim>\<open>loadModel\<close> made, or \<^verbatim>\<open>undefined\<close>
  (\<open>None\<close>) for a value that is no such configuration.
\<close>

record model_config =
  modelId :: "jsstring option"

text \<open>
  The module-level cache \<^verbatim>\<open>models\<close>, a plain object: the map holds its own properties,
  the configurations stored by \<^verbatim>\<open>loadModel\<close>.  For any other name \<^verbatim>\<open>models[name]\<close> is
  what a plain object inherits.
\<close>

type_synonym model_cache = "jsstring \<rightharpoonup> model_config"

text \<open>The \<^verbatim>\<open>switch\<close> of \<^verbatim>\<open>loadModel\<close>: one case and a default.\<close>

definition resolve_modelId :: "jsstring \<Rightarrow> jsstring" where
  "resolve_modelId modelName =
     (if modelName = js ''universal-sentence-encoder''
      then js ''sentence-transformers/all-MiniLM-L6-v2''
      else js ''sentence-transformers/all-MiniLM-L6-v2'')"

text \<open>
  \<^verbatim>\<open>loadModel\<close> returns the value it found or made, and the cache after the call.  The
  test \<^verbatim>\<open>if (models[modelName])\<close> is true for a stored configuration and for a truthy
  inherited property, which is returned as it is: a function or an object without a
  \<^verbatim>\<open>modelId\<close>.  The body of the try block logs, warns and stores into the cache; the
  handler that raises ``Failed to initialize embedding model'' guards those statements
  only.
\<close>

definition loadModel ::
  "runtime \<Rightarrow> model_cache \<Rightarrow> jsstring \<Rightarrow> error + model_config \<times> model_cache"
where
  "loadModel rt models modelName =
     (case models modelName of
        Some cached \<Rightarrow> Inr (cached, models)
      | None \<Rightarrow>
          if truthy (builtin_property rt (JObject []) modelName)
          then Inr (\<lparr>modelId = None\<rparr>, models)
          else
            (let config = \<lparr>modelId = Some (resolve_modelId modelName)\<rparr>
             in Inr (config, models(modelName \<mapsto> config))))"

section \<open>Embedding generation (indexer.js)\<close>

text \<open>\<^verbatim>\<open>new Array(384).fill(0)\<close>\<close>

definition zeroVector :: "real list" where
  "zeroVector = replicate 384 0"

text \<open>\<^verbatim>\<open>xs.slice(i, j)\<close> for \<open>0 \<le> i \<le> j\<close>.\<close>

definition slice :: "'a list \<Rightarrow> nat \<Rightarrow> nat \<Rightarrow> 'a list" where
  "slice xs i j = take (j - i) (drop i xs)"

text \<open>
  \<^verbatim>\<open>embeddings[k] = v\<close> on an array whose unset slots are \<^verbatim>\<open>undefined\<close> (\<open>None\<close>): an
  index past the end extends the array.
\<close>

definition array_set :: "'a option list \<Rightarrow> nat \<Rightarrow> 'a \<Rightarrow> 'a option list" where
  "array_set xs k v =
     (if k < length xs then xs[k := Some v]
      else xs @ replicate (k - length xs) None @ [Some v])"

text \<open>
  The task queued for one text: the provider's vector, or the zero vector when the
  provider call fails.  Either way the task stores its vector in slot \<open>i + batchIndex\<close>.
\<close>

definition embedding_task :: "runtime \<Rightarrow> model_config \<Rightarrow> jsstring \<Rightarrow> real list" where
  "embedding_task rt m text =
     (case featureExtraction rt (modelId m) text of
        Some result \<Rightarrow> result
      | None \<Rightarrow> zeroVector)"

text \<open>
  One sub-batch: the tasks of \<^verbatim>\<open>batch.map((text, batchIndex) => ...)\<close> run concurrently
  and are awaited together, so their stores happen in the order in which the answers
  arrive.
\<close>

definition run_batch ::
  "runtime \<Rightarrow> model_config \<Rightarrow> nat \<Rightarrow> jsstring list \<Rightarrow> real list option list \<Rightarrow> real list option list"
where
  "run_batch rt m i batch embeddings =
     fold (\<lambda>(batchIndex, text) embeddings. array_set embeddings (i + batchIndex) (embedding_task rt m text))
       (sort_key (\<lambda>(batchIndex, text). latency rt (i + batchIndex) text) (enumerate 0 batch))
       embeddings"

function generateEmbeddings_loop ::
  "runtime \<Rightarrow> model_config \<Rightarrow> jsstring list \<Rightarrow> nat \<Rightarrow> real list option list \<Rightarrow> real list option list"
where
  "generateEmbeddings_loop rt m texts i embeddings =
     (if i < length texts
      then generateEmbeddings_loop rt m texts (i + 8) (run_batch rt m i (slice texts i (i + 8)) embeddings)
      else embeddings)"
  by pat_completeness auto
termination
  by (relation "measure (\<lambda>(rt, m, texts, i, embeddings). length texts - i)") auto

text \<open>
  \<^verbatim>\<open>generateEmbeddings\<close>: the slots are reserved first, filled batch by batch, and the
  slots still \<^verbatim>\<open>undefined\<close> are filtered out at the end.  No statement of the outer try
  block raises once each task has absorbed its own failure.
\<close>

definition generateEmbeddings :: "runtime \<Rightarrow> model_config \<Rightarrow> jsstring list \<Rightarrow> error + real list list" where
  "generateEmbeddings rt m texts =
     (let embeddings = replicate (length texts) None;
          embeddings = generateEmbeddings_loop rt m texts 0 embeddings
      in Inr (List.map_filter (\<lambda>embedding. embedding) embeddings))"

section \<open>Index construction (indexer.js)\<close>

text \<open>
  The three object shapes of the program share the fields \<^verbatim>\<open>id\<close>, \<^verbatim>\<open>title\<close>,
  \<^verbatim>\<open>content\<close> and \<^verbatim>\<open>originalEntry\<close>: the entries collected while reading the file, the
  entries of the persisted index, and the search results.
\<close>

record doc =
  doc_id :: nat
  title :: jsstring
  content :: jsstring
  originalEntry :: jsvalue

record entry = doc +
  processedContent :: jsstring
  processedTitle :: jsstring

record index_entry = doc +
  contentEmbedding :: "real list"
  titleEmbedding :: "real list option"

text \<open>The options of \<^verbatim>\<open>buildIndex\<close> that the metadata block repeats.\<close>

record index_settings =
  contentField :: jsstring
  titleField :: jsstring
  model :: jsstring
  titleBoost :: bool

record metadata = index_settings +
  createdAt :: jsstring
  sourceFile :: jsstring
  entryCount :: nat

record index =
  metadata :: metadata
  entries :: "index_entry list"

text \<open>The string held by a value that is known to be a string.\<close>

fun string_of :: "jsvalue \<Rightarrow> jsstring" where
  "string_of (JString s) = s"
| "string_of _ = []"

text \<open>
  One turn of the loop over the lines of the file.  The state is the array
  \<^verbatim>\<open>entries\<close> and the counter \<^verbatim>\<open>entryId\<close>.  Every exception raised inside the try
  block (a line that does not decode, a property read on \<^verbatim>\<open>null\<close>, a content or
  title that is no string) ends the turn in the handler, which only logs.
\<close>

definition process_line :: "runtime \<Rightarrow> index_settings \<Rightarrow> jsstring \<Rightarrow> entry list \<times> nat \<Rightarrow> entry list \<times> nat" where
  "process_line rt options line state =
     (let (entries, entryId) = state in
      if trim line = [] then state
      else case JSON_parse rt line of
        None \<Rightarrow> state
      | Some entry \<Rightarrow>
          (case get_property rt entry (contentField options) of
             Inl _ \<Rightarrow> state
           | Inr c \<Rightarrow>
               (let content = (if truthy c then c else JString []) in
                case get_property rt entry (titleField options) of
                  Inl _ \<Rightarrow> state
                | Inr t \<Rightarrow>
                    (let title = (if truthy t then t else JString []) in
                     if \<not> truthy content then state
                     else case indexer_preprocessText rt content of
                       Inl _ \<Rightarrow> state
                     | Inr pContent \<Rightarrow>
                         (case indexer_preprocessText rt title of
                            Inl _ \<Rightarrow> state
                          | Inr pTitle \<Rightarrow>
                              (entries @
                                 [\<lparr>doc_id = entryId, title = string_of title,
                                   content = string_of content, originalEntry = entry,
                                   processedContent = pContent,
                                   processedTitle = pTitle\<rparr>],
                               entryId + 1))))))"

definition read_entries :: "runtime \<Rightarrow> index_settings \<Rightarrow> jsstring list \<Rightarrow> entry list \<times> nat" where
  "read_entries rt options lines = fold (process_line rt options) lines ([], 0)"

text \<open>
  The loop that generates the embeddings, 32 entries at a time; the state is the pair of
  arrays \<^verbatim>\<open>contentEmbeddings\<close> and \<^verbatim>\<open>titleEmbeddings\<close>.
\<close>

function embed_entries ::
  "runtime \<Rightarrow> model_config \<Rightarrow> bool \<Rightarrow> entry list \<Rightarrow> nat \<Rightarrow> real list list \<times> real list list
     \<Rightarrow> error + real list list \<times> real list list"
where
  "embed_entries rt m boost collected i embeddings =
     (if i < length collected then
        (let batch = slice collected i (i + 32);
             contentBatch = map processedContent batch
         in case generateEmbeddings rt m contentBatch of
              Inl e \<Rightarrow> Inl e
            | Inr contentEmbeddingBatch \<Rightarrow>
                (let contentEmbeddings = fst embeddings @ contentEmbeddingBatch in
                 if boost then
                   (let titleBatch = map processedTitle batch
                    in case generateEmbeddings rt m titleBatch of
                         Inl e \<Rightarrow> Inl e
                       | Inr titleEmbeddingBatch \<Rightarrow>
                           embed_entries rt m boost collected (i + 32)
                             (contentEmbeddings, snd embeddings @ titleEmbeddingBatch))
                 else embed_entries rt m boost collected (i + 32) (contentEmbeddings, snd embeddings)))
      else Inr embeddings)"
  by pat_completeness auto
termination
  by (relation "measure (\<lambda>(rt, m, boost, collected, i, embeddings). length collected - i)") auto

text \<open>\<^verbatim>\<open>Array.from(xs[i])\<close>: a TypeError when \<^verbatim>\<open>xs[i]\<close> is \<^verbatim>\<open>undefined\<close>.\<close>

definition array_from_at :: "'a list \<Rightarrow> nat \<Rightarrow> error + 'a" where
  "array_from_at xs i = (if i < length xs then Inr (xs ! i) else Inl TypeError)"

text \<open>\<^verbatim>\<open>entries.map((entry, i) => ...)\<close> of the index structure.\<close>

fun index_entries ::
  "bool \<Rightarrow> real list list \<Rightarrow> real list list \<Rightarrow> (nat \<times> entry) list \<Rightarrow> error + index_entry list"
where
  "index_entries boost contentEmbeddings titleEmbeddings [] = Inr []"
| "index_entries boost contentEmbeddings titleEmbeddings ((i, entry) # rest) =
     (case array_from_at contentEmbeddings i of
        Inl e \<Rightarrow> Inl e
      | Inr contentVector \<Rightarrow>
          (case (if boost then map_sum (\<lambda>e. e) Some (array_from_at titleEmbeddings i) else Inr None) of
             Inl e \<Rightarrow> Inl e
           | Inr titleVector \<Rightarrow>
               (case index_entries boost contentEmbeddings titleEmbeddings rest of
                  Inl e \<Rightarrow> Inl e
                | Inr others \<Rightarrow>
                    Inr (\<lparr>doc_id = doc_id entry, title = title entry, content = content entry,
                          originalEntry = originalEntry entry,
                          contentEmbedding = contentVector,
                          titleEmbedding = titleVector\<rparr> # others))))"

text \<open>
  The document handed to \<^verbatim>\<open>tfidf.addDocument\<close>: the processed content, followed three
  times by the processed title when there is one.
\<close>

definition tfidf_document :: "entry \<Rightarrow> jsstring" where
  "tfidf_document entry =
     (if processedTitle entry \<noteq> []
      then ((\<lambda>document. document @ 32 # processedTitle entry) ^^ 3) (processedContent entry)
      else processedContent entry)"

text \<open>
  \<^verbatim>\<open>buildIndex\<close>, from the lines that the reader yields to the two persisted artifacts:
  the index structure and the documents of the keyword index.
\<close>

definition buildIndex ::
  "runtime \<Rightarrow> model_cache \<Rightarrow> jsstring \<Rightarrow> jsstring list \<Rightarrow> index_settings \<Rightarrow> error + index \<times> jsstring list"
where
  "buildIndex rt models filePath lines options =
     (case loadModel rt models (model options) of
        Inl e \<Rightarrow> Inl e
      | Inr (embeddingModel, _) \<Rightarrow>
          (let entries = fst (read_entries rt options lines)
           in case embed_entries rt embeddingModel (titleBoost options) entries 0 ([], []) of
                Inl e \<Rightarrow> Inl e
              | Inr (contentEmbeddings, titleEmbeddings) \<Rightarrow>
                  (case index_entries (titleBoost options) contentEmbeddings titleEmbeddings
                          (enumerate 0 entries) of
                     Inl e \<Rightarrow> Inl e
                   | Inr indexed \<Rightarrow>
                       Inr (\<lparr>metadata =
                               \<lparr>contentField = contentField options,
                                titleField = titleField options,
                                model = model options,
                                titleBoost = titleBoost options,
                                createdAt = now rt,
                                sourceFile = basename rt filePath,
                                entryCount = length entries\<rparr>,
                             entries = indexed\<rparr>,
                            map tfidf_document entries))))"

section \<open>Searching (searcher.js)\<close>

text \<open>\<^verbatim>\<open>generateEmbedding\<close>: the provider's vector for one text, the zero vector on failure.\<close>

definition generateEmbedding :: "runtime \<Rightarrow> model_config \<Rightarrow> jsstring \<Rightarrow> real list" where
  "generateEmbedding rt m text =
     (case featureExtraction rt (modelId m) text of
        Some result \<Rightarrow> result
      | None \<Rightarrow> replicate 384 0)"

definition calculateCosineSimilarity :: "real list \<Rightarrow> real list \<Rightarrow> real" where
  "calculateCosineSimilarity a b =
     (let len = min (length a) (length b);
          vecA = take len a;
          vecB = take len b;
          (dotProduct, normA, normB) =
            fold (\<lambda>i (dotProduct, normA, normB).
                    (dotProduct + vecA ! i * vecB ! i,
                     normA + vecA ! i * vecA ! i,
                     normB + vecB ! i * vecB ! i))
              [0..<len] (0, 0, 0);
          normA = sqrt normA;
          normB = sqrt normB
      in if normA = 0 \<or> normB = 0 then 0 else dotProduct / (normA * normB))"

subsection \<open>Query expansion\<close>

text \<open>
  The in-memory stand-in model that \<^verbatim>\<open>getWord2VecModel\<close> builds: its
  \<^verbatim>\<open>getNearestWords\<close> returns no word.
\<close>

definition getNearestWords :: "jsstring \<Rightarrow> nat \<Rightarrow> jsstring list" where
  "getNearestWords word n = []"

definition getSimilarWords :: "jsstring \<Rightarrow> nat \<Rightarrow> jsstring list" where
  "getSimilarWords word count = filter (\<lambda>w. w \<noteq> []) (map (\<lambda>item. item) (getNearestWords word count))"

text \<open>\<^verbatim>\<open>words.forEach(w => synonyms.add(w))\<close> on a set that keeps insertion order.\<close>

definition add_each :: "'a list \<Rightarrow> 'a list \<Rightarrow> 'a list" where
  "add_each words synonyms = fold (\<lambda>w s. if w \<in> set s then s else s @ [w]) words synonyms"

text \<open>
  One turn of the loop over the tokens of the query.  Both lookups are inside their own
  try block: a failing lookup adds nothing.
\<close>

definition expand_token :: "runtime \<Rightarrow> jsstring \<Rightarrow> jsstring list \<Rightarrow> jsstring list" where
  "expand_token rt token synonyms =
     (if length token < 3 then synonyms
      else
        (let synonyms =
               (case lookupSynonyms rt token of
                  None \<Rightarrow> synonyms
                | Some synsets \<Rightarrow>
                    if synsets \<noteq> []
                    then add_each (filter (\<lambda>syn. syn \<noteq> token) (concat (take 3 synsets))) synonyms
                    else synonyms)
         in if import_word2vec rt then add_each (getSimilarWords token 3) synonyms else synonyms))"

definition expandQuery :: "runtime \<Rightarrow> jsstring \<Rightarrow> jsstring" where
  "expandQuery rt query =
     (let tokens = tokenize rt (toLowerCase rt query);
          synonyms = fold (expand_token rt) tokens []
      in query @ 32 # join_space synonyms)"

subsection \<open>Scoring\<close>

text \<open>
  The keyword statistics loaded from \<^verbatim>\<open>tfidf.json\<close> are used through one operation,
  \<^verbatim>\<open>tfidf.tfidf(term, i)\<close> of the \<^verbatim>\<open>natural\<close> library.
\<close>

type_synonym tfidf = "jsstring \<Rightarrow> nat \<Rightarrow> jsnum"

text \<open>The index directory: each artifact is \<open>None\<close> when its file does not exist.\<close>

record index_dir =
  index_json :: "index option"
  tfidf_json :: "tfidf option"

record search_options =
  limit :: int
  threshold :: real
  semanticWeight :: real
  titleWeight :: real

record result = doc +
  score :: jsnum
  relevance :: jsnum
  semanticSimilarity :: real
  keywordRelevance :: jsnum
  titleRelevance :: real

text \<open>\<^verbatim>\<open>tfidfScore / (Math.max(...tfidfScores) || 1)\<close>\<close>

definition normalize_tfidf :: "jsnum list \<Rightarrow> jsnum \<Rightarrow> jsnum" where
  "normalize_tfidf tfidfScores tfidfScore =
     js_div tfidfScore (or_else (Math_max tfidfScores) (Num 1))"

text \<open>\<^verbatim>\<open>tfidfScores[i] || 0\<close>: reading past the end gives \<^verbatim>\<open>undefined\<close>.\<close>

definition score_at :: "jsnum list \<Rightarrow> nat \<Rightarrow> jsnum" where
  "score_at tfidfScores i =
     (if i < length tfidfScores then or_else (tfidfScores ! i) (Num 0) else Num 0)"

text \<open>The callback of \<^verbatim>\<open>index.entries.map\<close>: the scored result of one entry.\<close>

definition score_entry ::
  "runtime \<Rightarrow> jsstring \<Rightarrow> bool \<Rightarrow> search_options \<Rightarrow> real list \<Rightarrow> jsnum list \<Rightarrow> nat \<Rightarrow> index_entry \<Rightarrow> result"
where
  "score_entry rt query boost options queryEmbedding tfidfScores i entry =
     (let contentSimilarity = calculateCosineSimilarity queryEmbedding (contentEmbedding entry);
          titleSimilarity =
            (case titleEmbedding entry of
               Some titleVector \<Rightarrow>
                 if boost then calculateCosineSimilarity queryEmbedding titleVector else 0
             | None \<Rightarrow> 0);
          titleMatchScore =
            (if title entry \<noteq> []
             then similarity rt (toLowerCase rt query) (toLowerCase rt (title entry))
             else 0);
          tfidfScore = score_at tfidfScores i;
          normalizedTfIdf = normalize_tfidf tfidfScores tfidfScore;
          semanticScore = Num (contentSimilarity * semanticWeight options);
          keywordScore = js_mul normalizedTfIdf (Num (1 - semanticWeight options));
          titleScore = Num ((titleSimilarity + titleMatchScore) / 2 * titleWeight options);
          totalScore = js_add (js_add semanticScore keywordScore) titleScore
      in \<lparr>doc_id = doc_id entry, title = title entry, content = content entry,
          originalEntry = originalEntry entry,
          score = totalScore, relevance = totalScore,
          semanticSimilarity = contentSimilarity,
          keywordRelevance = normalizedTfIdf,
          titleRelevance = titleSimilarity\<rparr>)"

text \<open>
  \<^verbatim>\<open>Array.prototype.sort\<close> with a comparator: a stable sort, here by insertion from the
  right so that an element stays before the later elements it compares equal to.  Only
  a comparison that is greater than zero puts the later element first; \<^verbatim>\<open>NaN\<close> counts
  as zero.
\<close>

fun js_positive :: "jsnum \<Rightarrow> bool" where
  "js_positive (Num a) = (0 < a)"
| "js_positive PosInfinity = True"
| "js_positive _ = False"

fun insert_sorted :: "('a \<Rightarrow> 'a \<Rightarrow> jsnum) \<Rightarrow> 'a \<Rightarrow> 'a list \<Rightarrow> 'a list" where
  "insert_sorted cmp x [] = [x]"
| "insert_sorted cmp x (y # ys) =
     (if js_positive (cmp x y) then y # insert_sorted cmp x ys else x # y # ys)"

definition array_sort :: "('a \<Rightarrow> 'a \<Rightarrow> jsnum) \<Rightarrow> 'a list \<Rightarrow> 'a list" where
  "array_sort cmp xs = foldr (insert_sorted cmp) xs []"

text \<open>\<^verbatim>\<open>xs.slice(0, end)\<close> for an integer \<open>end\<close>: a negative one counts from the end.\<close>

definition slice_to :: "'a list \<Rightarrow> int \<Rightarrow> 'a list" where
  "slice_to xs end =
     (if end < 0 then take (nat (int (length xs) + end)) xs else take (nat end) xs)"

text \<open>\<^verbatim>\<open>[...new Set(xs)]\<close>: the first occurrence of each element, in order.\<close>

definition unique :: "'a list \<Rightarrow> 'a list" where
  "unique xs = add_each xs []"

text \<open>The per-document keyword scores: the sum of the tf-idf of every query term.\<close>

definition tfidf_scores :: "tfidf \<Rightarrow> jsstring list \<Rightarrow> nat \<Rightarrow> jsnum list" where
  "tfidf_scores tfidf allQueryTerms n =
     map (\<lambda>i. fold (\<lambda>term score. js_add score (tfidf term i)) allQueryTerms (Num 0)) [0..<n]"

text \<open>
  The first part of \<^verbatim>\<open>searchIndex\<close> after the index is loaded: the query embedding and
  the term set \<^verbatim>\<open>allQueryTerms\<close>.
\<close>

definition query_context ::
  "runtime \<Rightarrow> model_cache \<Rightarrow> index \<Rightarrow> jsstring \<Rightarrow> error + real list \<times> jsstring list"
where
  "query_context rt models idx query =
     (case searcher_preprocessText rt (JString query) of
        Inl e \<Rightarrow> Inl e
      | Inr processedQuery \<Rightarrow>
          (let queryTerms = split_space processedQuery
           in case loadModel rt models (model (metadata idx)) of
                Inl e \<Rightarrow> Inl e
              | Inr (m, _) \<Rightarrow>
                  (let queryEmbedding = generateEmbedding rt m processedQuery;
                       expandedQuery = expandQuery rt query
                   in case searcher_preprocessText rt (JString expandedQuery) of
                        Inl e \<Rightarrow> Inl e
                      | Inr processedExpanded \<Rightarrow>
                          (let expandedQueryTerms = split_space processedExpanded;
                               allQueryTerms = unique (queryTerms @ expandedQueryTerms)
                           in Inr (queryEmbedding, allQueryTerms)))))"

text \<open>
  The array \<^verbatim>\<open>results\<close> of \<^verbatim>\<open>searchIndex\<close>, before the threshold, the sort and the
  limit are applied.
\<close>

definition scored_results ::
  "runtime \<Rightarrow> model_cache \<Rightarrow> index \<Rightarrow> tfidf \<Rightarrow> jsstring \<Rightarrow> search_options \<Rightarrow> error + result list"
where
  "scored_results rt models idx tfidf query options =
     (case query_context rt models idx query of
        Inl e \<Rightarrow> Inl e
      | Inr (queryEmbedding, allQueryTerms) \<Rightarrow>
          (let tfidfScores = tfidf_scores tfidf allQueryTerms (length (entries idx))
           in Inr (map (\<lambda>(i, entry).
                          score_entry rt query (titleBoost (metadata idx)) options
                            queryEmbedding tfidfScores i entry)
                     (enumerate 0 (entries idx)))))"

definition searchIndex ::
  "runtime \<Rightarrow> model_cache \<Rightarrow> index_dir \<Rightarrow> jsstring \<Rightarrow> search_options \<Rightarrow> error + result list"
where
  "searchIndex rt models dir query options =
     (case (index_json dir, tfidf_json dir) of
        (Some idx, Some tfidf) \<Rightarrow>
          (case scored_results rt models idx tfidf query options of
             Inl e \<Rightarrow> Inl e
           | Inr results \<Rightarrow>
               Inr (slice_to
                      (array_sort (\<lambda>a b. js_sub (score b) (score a))
                         (filter (\<lambda>result. js_ge (relevance result) (Num (threshold options)))
                            results))
                      (limit options)))
      | _ \<Rightarrow> Inl IndexNotFound)"

section \<open>A concrete runtime, for evaluating the model on examples\<close>

text \<open>Lower-casing of the ASCII letters, as \<^verbatim>\<open>toLowerCase\<close> acts on ASCII text.\<close>

definition ascii_lower :: "jsstring \<Rightarrow> jsstring" where
  "ascii_lower s = map (\<lambda>c. if 65 \<le> c \<and> c \<le> 90 then c + 32 else c) s"

text \<open>A tokenizer that returns the maximal runs of word characters.\<close>

fun word_tokens_acc :: "jsstring \<Rightarrow> jsstring \<Rightarrow> jsstring list" where
  "word_tokens_acc token [] = (if token = [] then [] else [rev token])"
| "word_tokens_acc token (c # cs) =
     (if is_word_char c then word_tokens_acc (c # token) cs
      else (if token = [] then [] else [rev token]) @ word_tokens_acc [] cs)"

definition word_tokens :: "jsstring \<Rightarrow> jsstring list" where
  "word_tokens s = word_tokens_acc [] s"

text \<open>A decoder that knows five lines.\<close>

definition example_parse :: "jsstring \<Rightarrow> jsvalue option" where
  \<open>example_parse line =
     (if line = js ''{"title":"Cats","content":"small cats"}''
      then Some (JObject [(js ''title'', JString (js ''Cats'')),
                          (js ''content'', JString (js ''small cats''))])
      else if line = js ''{"content":"loyal dogs"}''
      then Some (JObject [(js ''content'', JString (js ''loyal dogs''))])
      else if line = js ''{"title":"Space"}''
      then Some (JObject [(js ''title'', JString (js ''Space''))])
      else if line = js ''{"content":""}''
      then Some (JObject [(js ''content'', JString [])])
      else if line = js ''null''
      then Some JNull
      else None)\<close>

text \<open>
  The properties that an engine finds without an own property: the properties of
  \<^verbatim>\<open>Object.prototype\<close> on an object, and the length of a string or an array.
\<close>

definition object_prototype_methods :: "jsstring list" where
  "object_prototype_methods =
     map js [''constructor'', ''__defineGetter__'', ''__defineSetter__'', ''hasOwnProperty'',
             ''__lookupGetter__'', ''__lookupSetter__'', ''isPrototypeOf'',
             ''propertyIsEnumerable'', ''toString'', ''valueOf'', ''toLocaleString'']"

fun example_builtin :: "jsvalue \<Rightarrow> jsstring \<Rightarrow> jsvalue" where
  "example_builtin (JObject kvs) field =
     (if field \<in> set object_prototype_methods then JFunction
      else if field = js ''__proto__'' then JObject []
      else JUndefined)"
| "example_builtin (JString s) field =
     (if field = js ''length'' then JNumber (real (length s)) else JUndefined)"
| "example_builtin (JArray xs) field =
     (if field = js ''length'' then JNumber (real (length xs)) else JUndefined)"
| "example_builtin v field = JUndefined"

text \<open>
  The provider of the examples rejects the empty text and embeds every other text in
  two dimensions.
\<close>

definition example_runtime :: runtime where
  "example_runtime =
     \<lparr>toLowerCase = ascii_lower,
      tokenize = word_tokens,
      removeStopwords = filter (\<lambda>token. token \<notin> set (map js [''a'', ''are'', ''the''])),
      stem = (\<lambda>token. None),
      featureExtraction =
        (\<lambda>modelId text. if text = [] then None
           else if text = js ''small cats'' then Some [1, 0] else Some [0, 1]),
      latency = (\<lambda>slot text. 100 - slot),
      similarity = (\<lambda>a b. if a = b then 1 else 0),
      lookupSynonyms = (\<lambda>token. None),
      import_word2vec = False,
      JSON_parse = example_parse,
      builtin_property = example_builtin,
      now = js ''2024-01-01T00:00:00.000Z'',
      basename = (\<lambda>path. path)\<rparr>"

definition example_options :: index_settings where
  "example_options =
     \<lparr>contentField = js ''content'', titleField = js ''title'',
      model = js ''universal-sentence-encoder'', titleBoost = True\<rparr>"

text \<open>
  A file of eight lines: two records with content, an empty line, a line of spaces, a
  line that does not decode, a record without content, a record with empty content,
  and \<^verbatim>\<open>null\<close>.
\<close>

definition example_lines :: "jsstring list" where
  \<open>example_lines =
     [js ''{"title":"Cats","content":"small cats"}'', [], js ''   '', js ''not json'',
      js ''{"title":"Space"}'', js ''{"content":""}'', js ''null'',
      js ''{"content":"loyal dogs"}'']\<close>

definition example_search_options :: search_options where
  "example_search_options =
     \<lparr>limit = 10, threshold = 1 / 2, semanticWeight = 7 / 10, titleWeight = 3 / 10\<rparr>"

definition example_metadata :: metadata where
  "example_metadata =
     \<lparr>contentField = js ''content'', titleField = js ''title'',
      model = js ''universal-sentence-encoder'', titleBoost = True,
      createdAt = js ''2024-01-01T00:00:00.000Z'', sourceFile = js ''db.jsonl'',
      entryCount = 0\<rparr>"

definition empty_index_dir :: index_dir where
  "empty_index_dir =
     \<lparr>index_json = Some \<lparr>metadata = example_metadata, entries = []\<rparr>,
      tfidf_json = Some (\<lambda>term i. Num 0)\<rparr>"

text \<open>
  An index of two documents, as \<^verbatim>\<open>buildIndex\<close> makes it of the two records of the
  example file under the example runtime, and keyword statistics for it.
\<close>

definition example_index :: index where
  "example_index =
     \<lparr>metadata = example_metadata\<lparr>entryCount := 2\<rparr>,
      entries =
        [\<lparr>doc_id = 0, title = js ''Cats'', content = js ''small cats'',
          originalEntry = JObject [(js ''title'', JString (js ''Cats'')),
                                   (js ''content'', JString (js ''small cats''))],
          contentEmbedding = [1, 0], titleEmbedding = Some [0, 1]\<rparr>,
         \<lparr>doc_id = 1, title = [], content = js ''loyal dogs'',
          originalEntry = JObject [(js ''content'', JString (js ''loyal dogs''))],
          contentEmbedding = [0, 1], titleEmbedding = Some (replicate 384 0)\<rparr>]\<rparr>"

definition example_tfidf :: tfidf where
  "example_tfidf term i =
     (if term = js ''cats'' \<and> i = 0 then Num 2
      else if term = js ''small'' \<and> i = 0 then Num 1
      else if term = js ''dogs'' \<and> i = 1 then Num 1
      else Num 0)"

text \<open>
  Keyword statistics as the library \<^verbatim>\<open>natural\<close> answers them: for a term that names a
  property every object inherits, such as \<^verbatim>\<open>constructor\<close>, the term frequency it reads
  from a document is that property, a function, and the product with the inverse
  document frequency is \<^verbatim>\<open>NaN\<close>.
\<close>

definition natural_tfidf :: tfidf where
  "natural_tfidf term i =
     (if term \<in> set object_prototype_methods then NaN else example_tfidf term i)"

definition example_index_dir :: index_dir where
  "example_index_dir = \<lparr>index_json = Some example_index, tfidf_json = Some example_tfidf\<rparr>"

section \<open>Normalization is the same function at build time and at query time\<close>

text \<open>
  C3.  The text normalization applied while building the index (\<^verbatim>\<open>preprocessText\<close> of
  indexer.js) and the one applied to a query (\<^verbatim>\<open>preprocessText\<close> of searcher.js) are
  extensionally equal: for every input, and whatever the tokenizer, the stopword filter
  and the lemmatizer are, both return the same output.
\<close>

theorem preprocessText_agree:
  "indexer_preprocessText rt text = searcher_preprocessText rt text"
  by (simp add: indexer_preprocessText_def searcher_preprocessText_def)

section \<open>Model loading\<close>

lemma loadModel_cases:
  "loadModel rt models modelName =
     (case models modelName of
        Some cached \<Rightarrow> Inr (cached, models)
      | None \<Rightarrow>
          if truthy (builtin_property rt (JObject []) modelName)
          then Inr (\<lparr>modelId = None\<rparr>, models)
          else Inr (\<lparr>modelId = Some (js ''sentence-transformers/all-MiniLM-L6-v2'')\<rparr>,
                    models(modelName \<mapsto>
                      \<lparr>modelId = Some (js ''sentence-transformers/all-MiniLM-L6-v2'')\<rparr>)))"
  by (simp add: loadModel_def resolve_modelId_def Let_def split: option.split)

lemma loadModel_total:
  "\<exists>m models'. loadModel rt models modelName = Inr (m, models')"
  by (simp add: loadModel_cases split: option.split)

lemma example_builtin_fresh:
  "builtin_property example_runtime (JObject []) (js ''universal-sentence-encoder'') = JUndefined"
  "builtin_property example_runtime (JObject []) (js ''no-such-model'') = JUndefined"
  "builtin_property example_runtime (JObject []) (js ''constructor'') = JFunction"
  by (simp_all add: example_runtime_def object_prototype_methods_def js_def)

lemma example_loadModel:
  "loadModel example_runtime Map.empty (js ''universal-sentence-encoder'')
     = Inr (\<lparr>modelId = Some (js ''sentence-transformers/all-MiniLM-L6-v2'')\<rparr>,
            [js ''universal-sentence-encoder'' \<mapsto>
               \<lparr>modelId = Some (js ''sentence-transformers/all-MiniLM-L6-v2'')\<rparr>])"
  by (simp add: loadModel_cases example_builtin_fresh)

text \<open>
  C6, as the program has it.  Loading a model never fails, and which name it is asked for
  decides the result in three ways.  A name that the cache holds returns the cached
  configuration.  A name that the cache does not hold and that a plain object does not
  inherit, the one name of the switch or any other such name, resolves to the provider
  identifier \<^verbatim>\<open>sentence-transformers/all-MiniLM-L6-v2\<close> and is cached.  A name that the
  cache does not hold and for which a plain object inherits a truthy property (such as
  \<^verbatim>\<open>constructor\<close> or \<^verbatim>\<open>toString\<close>) returns that property, a value without a model
  identifier, and nothing is cached.
\<close>

theorem loadModel_never_fails:
  "\<exists>config models'.
     loadModel rt models modelName = Inr (config, models') \<and>
     (\<forall>cached. models modelName = Some cached \<longrightarrow> config = cached \<and> models' = models) \<and>
     (models modelName = None \<and> \<not> truthy (builtin_property rt (JObject []) modelName) \<longrightarrow>
        modelId config = Some (js ''sentence-transformers/all-MiniLM-L6-v2'') \<and>
        models' = models(modelName \<mapsto> config)) \<and>
     (models modelName = None \<and> truthy (builtin_property rt (JObject []) modelName) \<longrightarrow>
        modelId config = None \<and> models' = models)"
  by (cases "models modelName") (simp_all add: loadModel_cases)

theorem loadModel_never_fails_witness:
  "(\<exists>config models'.
      loadModel example_runtime Map.empty (js ''no-such-model'') = Inr (config, models') \<and>
      modelId config = Some (js ''sentence-transformers/all-MiniLM-L6-v2'') \<and>
      models' = [js ''no-such-model'' \<mapsto> config]) \<and>
   (\<exists>config models'.
      loadModel example_runtime Map.empty (js ''constructor'') = Inr (config, models') \<and>
      modelId config = None \<and> models' = Map.empty) \<and>
   (\<exists>config models'.
      loadModel example_runtime [js ''constructor'' \<mapsto> \<lparr>modelId = Some (js ''m'')\<rparr>]
        (js ''constructor'') = Inr (config, models') \<and>
      config = \<lparr>modelId = Some (js ''m'')\<rparr> \<and>
      models' = [js ''constructor'' \<mapsto> \<lparr>modelId = Some (js ''m'')\<rparr>])"
  using loadModel_never_fails [of example_runtime Map.empty "js ''no-such-model''"]
    loadModel_never_fails [of example_runtime Map.empty "js ''constructor''"]
    loadModel_never_fails [of example_runtime
      "[js ''constructor'' \<mapsto> \<lparr>modelId = Some (js ''m'')\<rparr>]" "js ''constructor''"]
  by (simp add: example_builtin_fresh)

text \<open>
  C6, as the specification states it, fails: a model name outside the mapping loads
  successfully, with the default identifier, instead of failing with
  ModelInitializationFailure.
\<close>

theorem loadModel_unknown_name_counterexample:
  "js ''no-such-model'' \<noteq> js ''universal-sentence-encoder'' \<and>
   loadModel example_runtime Map.empty (js ''no-such-model'')
     = Inr (\<lparr>modelId = Some (js ''sentence-transformers/all-MiniLM-L6-v2'')\<rparr>,
            [js ''no-such-model'' \<mapsto>
               \<lparr>modelId = Some (js ''sentence-transformers/all-MiniLM-L6-v2'')\<rparr>]) \<and>
   loadModel example_runtime Map.empty (js ''no-such-model'') \<noteq> Inl ModelInitializationFailure"
  by (simp add: loadModel_cases example_builtin_fresh) (simp add: js_def)

section \<open>Embedding generation\<close>

text \<open>
  The stores of one sub-batch, in any order: each slot named by a task holds that task's
  vector afterwards, and every other slot is unchanged.
\<close>

lemma fold_array_set:
  assumes "\<forall>(b, t) \<in> set ps. i + b < length embeddings \<and> t = f b"
  shows "length (fold (\<lambda>(b, t) e. array_set e (i + b) (g t)) ps embeddings) = length embeddings \<and>
         (\<forall>k < length embeddings.
            fold (\<lambda>(b, t) e. array_set e (i + b) (g t)) ps embeddings ! k =
              (if \<exists>(b, t) \<in> set ps. i + b = k then Some (g (f (k - i))) else embeddings ! k))"
  using assms
proof (induction ps arbitrary: embeddings)
  case Nil
  then show ?case by simp
next
  case (Cons p ps)
  obtain b t where p: "p = (b, t)" by (cases p)
  let ?e1 = "array_set embeddings (i + b) (g t)"
  from Cons.prems p have inb: "i + b < length embeddings" and t: "t = f b" by auto
  then have e1: "?e1 = embeddings[i + b := Some (g (f b))]"
    by (simp add: array_set_def)
  then have len: "length ?e1 = length embeddings" by simp
  have "\<forall>(b, t) \<in> set ps. i + b < length ?e1 \<and> t = f b"
    using Cons.prems len by auto
  from Cons.IH [OF this] len
  have IH: "length (fold (\<lambda>(b, t) e. array_set e (i + b) (g t)) ps ?e1) = length embeddings"
    "\<And>k. k < length embeddings \<Longrightarrow>
       fold (\<lambda>(b, t) e. array_set e (i + b) (g t)) ps ?e1 ! k =
         (if \<exists>(b, t) \<in> set ps. i + b = k then Some (g (f (k - i))) else ?e1 ! k)"
    by auto
  show ?case
  proof (intro conjI allI impI)
    show "length (fold (\<lambda>(b, t) e. array_set e (i + b) (g t)) (p # ps) embeddings) = length embeddings"
      using IH(1) p by simp
  next
    fix k assume k: "k < length embeddings"
    show "fold (\<lambda>(b, t) e. array_set e (i + b) (g t)) (p # ps) embeddings ! k =
         (if \<exists>(b, t) \<in> set (p # ps). i + b = k then Some (g (f (k - i))) else embeddings ! k)"
      using IH(2) [OF k] k inb by (auto simp: p e1 nth_list_update)
  qed
qed

lemma run_batch_nth:
  assumes "i + length batch \<le> length embeddings"
  shows "length (run_batch rt m i batch embeddings) = length embeddings"
    and "k < length embeddings \<Longrightarrow>
         run_batch rt m i batch embeddings ! k =
           (if i \<le> k \<and> k < i + length batch then Some (embedding_task rt m (batch ! (k - i)))
            else embeddings ! k)"
proof -
  let ?ps = "sort_key (\<lambda>(batchIndex, text). latency rt (i + batchIndex) text) (enumerate 0 batch)"
  have set_ps: "set ?ps = set (enumerate 0 batch)" by simp
  have pre: "\<forall>(b, t) \<in> set ?ps. i + b < length embeddings \<and> t = (\<lambda>b. batch ! b) b"
    using assms unfolding set_ps by (auto simp: in_set_enumerate_eq)
  note F = fold_array_set [OF pre, of "embedding_task rt m"]
  show "length (run_batch rt m i batch embeddings) = length embeddings"
    using F by (simp add: run_batch_def)
  assume k: "k < length embeddings"
  have "(\<exists>(b, t) \<in> set ?ps. i + b = k) \<longleftrightarrow> (i \<le> k \<and> k < i + length batch)"
    unfolding set_ps by (auto simp: in_set_enumerate_eq intro!: bexI [of _ "(k - i, batch ! (k - i))"])
  then show "run_batch rt m i batch embeddings ! k =
           (if i \<le> k \<and> k < i + length batch then Some (embedding_task rt m (batch ! (k - i)))
            else embeddings ! k)"
    using F k by (simp add: run_batch_def)
qed

lemma slice_length: "length (slice xs i j) = min (j - i) (length xs - i)"
  by (simp add: slice_def)

lemma slice_nth: "k < length (slice xs i j) \<Longrightarrow> slice xs i j ! k = xs ! (i + k)"
proof -
  assume "k < length (slice xs i j)"
  then have "k < j - i" and "i \<le> length xs" by (auto simp: slice_def)
  then show ?thesis by (simp add: slice_def nth_drop)
qed

declare generateEmbeddings_loop.simps [simp del]

lemma generateEmbeddings_loop_nth:
  assumes "length embeddings = length texts"
  shows "length (generateEmbeddings_loop rt m texts i embeddings) = length texts \<and>
         (\<forall>k < length texts.
            generateEmbeddings_loop rt m texts i embeddings ! k =
              (if i \<le> k then Some (embedding_task rt m (texts ! k)) else embeddings ! k))"
  using assms
proof (induction rt m texts i embeddings rule: generateEmbeddings_loop.induct)
  case (1 rt m texts i embeddings)
  show ?case
  proof (cases "i < length texts")
    case False
    then show ?thesis
      using "1.prems" by (simp add: generateEmbeddings_loop.simps [of rt m texts i])
  next
    case True
    let ?batch = "slice texts i (i + 8)"
    let ?e1 = "run_batch rt m i ?batch embeddings"
    have fits: "i + length ?batch \<le> length embeddings"
      using True "1.prems" by (simp add: slice_length)
    have len1: "length ?e1 = length texts"
      using run_batch_nth(1) [OF fits] "1.prems" by simp
    have nth1: "\<And>k. k < length texts \<Longrightarrow> ?e1 ! k =
        (if i \<le> k \<and> k < i + 8 then Some (embedding_task rt m (texts ! k)) else embeddings ! k)"
    proof -
      fix k assume k: "k < length texts"
      then have "k < length embeddings" using "1.prems" by simp
      have "?batch ! (k - i) = texts ! k" if "i \<le> k" "k < i + 8"
      proof -
        have "k - i < length ?batch" using that k by (auto simp: slice_length)
        from slice_nth [OF this] that show ?thesis by simp
      qed
      with run_batch_nth(2) [OF fits \<open>k < length embeddings\<close>, of rt m] k True
      show "?e1 ! k =
        (if i \<le> k \<and> k < i + 8 then Some (embedding_task rt m (texts ! k)) else embeddings ! k)"
        by (auto simp: slice_length)
    qed
    from "1.IH" [OF True len1]
    have IH: "length (generateEmbeddings_loop rt m texts (i + 8) ?e1) = length texts"
      "\<And>k. k < length texts \<Longrightarrow> generateEmbeddings_loop rt m texts (i + 8) ?e1 ! k =
              (if i + 8 \<le> k then Some (embedding_task rt m (texts ! k)) else ?e1 ! k)"
      by auto
    have unfold: "generateEmbeddings_loop rt m texts i embeddings
        = generateEmbeddings_loop rt m texts (i + 8) ?e1"
      using True by (simp add: generateEmbeddings_loop.simps [of rt m texts i])
    show ?thesis
      unfolding unfold using IH nth1 by auto
  qed
qed

lemma map_filter_Some: "List.map_filter (\<lambda>e. e) (map (\<lambda>x. Some (f x)) xs) = map f xs"
  by (induction xs) (simp_all add: List.map_filter_simps)

lemma generateEmbeddings_eq:
  "generateEmbeddings rt m texts = Inr (map (embedding_task rt m) texts)"
proof -
  let ?r = "generateEmbeddings_loop rt m texts 0 (replicate (length texts) None)"
  have "length ?r = length texts \<and>
        (\<forall>k < length texts. ?r ! k = (if 0 \<le> k then Some (embedding_task rt m (texts ! k))
            else replicate (length texts) None ! k))"
    by (rule generateEmbeddings_loop_nth) simp
  then have "?r = map (\<lambda>x. Some (embedding_task rt m x)) texts"
    by (intro nth_equalityI) auto
  then show ?thesis
    by (simp add: generateEmbeddings_def map_filter_Some)
qed

text \<open>
  C7.  For every list of texts, every provider and every order in which the provider's
  answers arrive, batch embedding generation returns without raising a list of vectors
  of the same length as the input, in the order of the input: position \<open>k\<close> holds the
  provider's vector for text \<open>k\<close>, or the zero vector of dimension 384 when the provider
  fails for that text.
\<close>

theorem generateEmbeddings_positions:
  "\<exists>vectors.
     generateEmbeddings rt m texts = Inr vectors \<and>
     length vectors = length texts \<and>
     (\<forall>k < length texts.
        vectors ! k =
          (case featureExtraction rt (modelId m) (texts ! k) of
             Some result \<Rightarrow> result
           | None \<Rightarrow> replicate 384 0))"
  by (simp add: generateEmbeddings_eq embedding_task_def zeroVector_def split: option.split)

theorem generateEmbeddings_positions_witness:
  "\<exists>vectors.
     generateEmbeddings example_runtime \<lparr>modelId = Some (js ''sentence-transformers/all-MiniLM-L6-v2'')\<rparr>
       [js ''small cats'', [], js ''loyal dogs''] = Inr vectors \<and>
     length vectors = 3 \<and>
     vectors ! 0 = [1, 0] \<and> vectors ! 1 = replicate 384 0 \<and> vectors ! 2 = [0, 1]"
proof -
  obtain vectors where v:
    "generateEmbeddings example_runtime \<lparr>modelId = Some (js ''sentence-transformers/all-MiniLM-L6-v2'')\<rparr>
       [js ''small cats'', [], js ''loyal dogs''] = Inr vectors"
    "length vectors = length [js ''small cats'', [], js ''loyal dogs'']"
    "\<forall>k < length [js ''small cats'', [], js ''loyal dogs''].
        vectors ! k =
          (case featureExtraction example_runtime
                  (modelId \<lparr>modelId = Some (js ''sentence-transformers/all-MiniLM-L6-v2'')\<rparr>)
                  ([js ''small cats'', [], js ''loyal dogs''] ! k) of
             Some result \<Rightarrow> result
           | None \<Rightarrow> replicate 384 0)"
    using generateEmbeddings_positions
      [of example_runtime "\<lparr>modelId = Some (js ''sentence-transformers/all-MiniLM-L6-v2'')\<rparr>"
          "[js ''small cats'', [], js ''loyal dogs'']"]
    by blast
  from v(3) have "vectors ! 0 = [1, 0]" "vectors ! 1 = replicate 384 0" "vectors ! 2 = [0, 1]"
    by (simp_all add: example_runtime_def js_def)
  with v(1,2) show ?thesis by simp
qed

section \<open>Index construction\<close>

lemma process_line_cases:
  "process_line rt options line (es, n) = (es, n) \<or>
   (\<exists>e. process_line rt options line (es, n) = (es @ [e], Suc n) \<and> doc_id e = n)"
  by (simp add: process_line_def Let_def split: option.split sum.split)

lemma fold_process_line_ids:
  assumes "map doc_id es = [0..<n]"
  shows "map doc_id (fst (fold (process_line rt options) lines (es, n)))
           = [0..<snd (fold (process_line rt options) lines (es, n))]"
  using assms
proof (induction lines arbitrary: es n)
  case Nil
  then show ?case by simp
next
  case (Cons line lines)
  from process_line_cases [of rt options line es n]
  show ?case
  proof
    assume "process_line rt options line (es, n) = (es, n)"
    with Cons show ?thesis by simp
  next
    assume "\<exists>e. process_line rt options line (es, n) = (es @ [e], Suc n) \<and> doc_id e = n"
    then obtain e where e: "process_line rt options line (es, n) = (es @ [e], Suc n)" "doc_id e = n"
      by blast
    have "map doc_id (es @ [e]) = [0..<Suc n]"
      using Cons.prems e(2) by simp
    from Cons.IH [OF this] e(1) show ?thesis by simp
  qed
qed

lemma read_entries_ids:
  "map doc_id (fst (read_entries rt options lines)) = [0..<snd (read_entries rt options lines)]"
  unfolding read_entries_def by (rule fold_process_line_ids) simp

lemma read_entries_count:
  "snd (read_entries rt options lines) = length (fst (read_entries rt options lines))"
  using read_entries_ids [of rt options lines, THEN arg_cong, of length] by simp

lemma trim_whitespace_only:
  assumes "\<forall>c \<in> set line. is_space_char c"
  shows "trim line = []"
proof -
  have d: "dropWhile is_space_char line = []"
    using assms by (induction line) simp_all
  show ?thesis by (simp only: trim_def d rev.simps dropWhile.simps)
qed

declare embed_entries.simps [simp del]

lemma embed_entries_eq:
  "embed_entries rt m boost es i embeddings =
     Inr (fst embeddings @ map (\<lambda>e. embedding_task rt m (processedContent e)) (drop i es),
          if boost
          then snd embeddings @ map (\<lambda>e. embedding_task rt m (processedTitle e)) (drop i es)
          else snd embeddings)"
proof (induction rt m boost es i embeddings rule: embed_entries.induct)
  case (1 rt m boost es i embeddings)
  show ?case
  proof (cases "i < length es")
    case False
    then show ?thesis by (simp add: embed_entries.simps [of rt m boost es i])
  next
    case less: True
    let ?batch = "slice es i (i + 32)"
    have parts: "drop i es = ?batch @ drop (i + 32) es"
      by (simp add: slice_def add.commute [of i 32] flip: drop_drop)
    show ?thesis
    proof (cases boost)
      case True
      have step: "embed_entries rt m boost es i embeddings =
          embed_entries rt m boost es (i + 32)
            (fst embeddings @ map (embedding_task rt m) (map processedContent ?batch),
             snd embeddings @ map (embedding_task rt m) (map processedTitle ?batch))"
        by (subst embed_entries.simps) (simp add: less True generateEmbeddings_eq Let_def)
      note IH = "1.IH"(1) [OF less refl refl generateEmbeddings_eq refl True refl generateEmbeddings_eq]
      show ?thesis
        unfolding step IH parts using True by (simp add: comp_def)
    next
      case False
      have step: "embed_entries rt m boost es i embeddings =
          embed_entries rt m boost es (i + 32)
            (fst embeddings @ map (embedding_task rt m) (map processedContent ?batch),
             snd embeddings)"
        by (subst embed_entries.simps) (simp add: less False generateEmbeddings_eq Let_def)
      note IH = "1.IH"(2) [OF less refl refl generateEmbeddings_eq refl False]
      show ?thesis
        unfolding step IH parts using False by (simp add: comp_def)
    qed
  qed
qed

lemma index_entries_eq:
  assumes "\<forall>j < length xs. k + j < length ces \<and> ces ! (k + j) = f (xs ! j)"
    and "boost \<Longrightarrow> \<forall>j < length xs. k + j < length tes \<and> tes ! (k + j) = g (xs ! j)"
  shows "index_entries boost ces tes (enumerate k xs) =
     Inr (map (\<lambda>e. \<lparr>doc_id = doc_id e, title = title e, content = content e,
                     originalEntry = originalEntry e,
                     contentEmbedding = f e,
                     titleEmbedding = (if boost then Some (g e) else None)\<rparr>) xs)"
  using assms
proof (induction xs arbitrary: k)
  case Nil
  then show ?case by simp
next
  case (Cons x xs)
  have c0: "k < length ces" "ces ! k = f x"
    using Cons.prems(1) [rule_format, of 0] by simp_all
  have t0: "boost \<Longrightarrow> k < length tes \<and> tes ! k = g x"
    using Cons.prems(2) [rule_format, of 0] by simp
  have "\<forall>j < length xs. Suc k + j < length ces \<and> ces ! (Suc k + j) = f (xs ! j)"
    using Cons.prems(1) [rule_format, of "Suc j" for j] by simp
  moreover have "boost \<Longrightarrow> \<forall>j < length xs. Suc k + j < length tes \<and> tes ! (Suc k + j) = g (xs ! j)"
    using Cons.prems(2) [rule_format, of "Suc j" for j] by simp
  ultimately have IH: "index_entries boost ces tes (enumerate (Suc k) xs) =
     Inr (map (\<lambda>e. \<lparr>doc_id = doc_id e, title = title e, content = content e,
                     originalEntry = originalEntry e,
                     contentEmbedding = f e,
                     titleEmbedding = (if boost then Some (g e) else None)\<rparr>) xs)"
    by (rule Cons.IH)
  show ?case
    using c0 t0 IH by (cases boost) (simp_all add: array_from_at_def)
qed

text \<open>
  \<^verbatim>\<open>buildIndex\<close> in closed form: it always succeeds, and every collected entry becomes
  one index entry, in order.
\<close>

lemma buildIndex_eq:
  assumes "loadModel rt models (model options) = Inr (m, models')"
  shows "buildIndex rt models filePath lines options =
     Inr (\<lparr>metadata =
            \<lparr>contentField = contentField options, titleField = titleField options,
             model = model options, titleBoost = titleBoost options,
             createdAt = now rt, sourceFile = basename rt filePath,
             entryCount = length (fst (read_entries rt options lines))\<rparr>,
           entries =
             map (\<lambda>e. \<lparr>doc_id = doc_id e, title = title e, content = content e,
                        originalEntry = originalEntry e,
                        contentEmbedding = embedding_task rt m (processedContent e),
                        titleEmbedding =
                          (if titleBoost options
                           then Some (embedding_task rt m (processedTitle e)) else None)\<rparr>)
               (fst (read_entries rt options lines))\<rparr>,
          map tfidf_document (fst (read_entries rt options lines)))"
proof -
  let ?es = "fst (read_entries rt options lines)"
  let ?ces = "map (\<lambda>e. embedding_task rt m (processedContent e)) ?es"
  let ?tes = "if titleBoost options then map (\<lambda>e. embedding_task rt m (processedTitle e)) ?es else []"
  have emb: "embed_entries rt m (titleBoost options) ?es 0 ([], []) = Inr (?ces, ?tes)"
    by (simp add: embed_entries_eq)
  have idx: "index_entries (titleBoost options) ?ces ?tes (enumerate 0 ?es) =
     Inr (map (\<lambda>e. \<lparr>doc_id = doc_id e, title = title e, content = content e,
                        originalEntry = originalEntry e,
                        contentEmbedding = embedding_task rt m (processedContent e),
                        titleEmbedding =
                          (if titleBoost options
                           then Some (embedding_task rt m (processedTitle e)) else None)\<rparr>) ?es)"
    by (rule index_entries_eq) simp_all
  show ?thesis
    by (simp add: buildIndex_def assms emb idx Let_def)
qed

lemmas example_eval =
  read_entries_def example_lines_def process_line_def example_parse_def example_options_def
  indexer_preprocessText_def processed_def example_runtime_def ascii_lower_def js_def
  object_prototype_methods_def
  replace_special_def is_word_char_def is_space_char_def trim_def word_tokens_def lemmatize_def

lemma process_line_skips:
  assumes "(\<forall>c \<in> set line. is_space_char c) \<or> JSON_parse rt line = None \<or>
     (\<exists>decoded v. JSON_parse rt line = Some decoded \<and>
        get_property rt decoded (contentField options) = Inr v \<and> \<not> truthy v)"
  shows "process_line rt options line state = state"
  using assms
proof (elim disjE exE conjE)
  assume "\<forall>c \<in> set line. is_space_char c"
  then have "trim line = []" by (rule trim_whitespace_only)
  then show ?thesis by (simp add: process_line_def split: prod.split)
next
  assume "JSON_parse rt line = None"
  then show ?thesis by (simp add: process_line_def split: prod.split)
next
  fix decoded v
  assume "JSON_parse rt line = Some decoded"
    and "get_property rt decoded (contentField options) = Inr v" and "\<not> truthy v"
  then show ?thesis
    by (simp add: process_line_def Let_def split: prod.split sum.split option.split)
qed

lemma fold_filter_skipped:
  assumes "\<And>x s. \<not> P x \<Longrightarrow> f x s = s"
  shows "fold f (filter P xs) s = fold f xs s"
  by (induction xs arbitrary: s) (simp_all add: assms)

text \<open>
  C4.  While the index is built, a line that is empty or holds only whitespace, a line
  that does not decode, and a decoded record whose content field is missing or falsy
  (the empty string among them) leave the collected entries and the id counter as they
  were; removing all such lines from the input changes nothing.  The build always
  succeeds, and the ids of the indexed documents are exactly \<open>0, 1, ..., n - 1\<close> in
  input order, where \<open>n\<close> is the number of collected entries and the final value of
  the counter.
\<close>

theorem skipped_lines_consume_no_id:
  "((\<forall>c \<in> set line. is_space_char c) \<or> JSON_parse rt line = None \<or>
      (\<exists>decoded v. JSON_parse rt line = Some decoded \<and>
         get_property rt decoded (contentField options) = Inr v \<and> \<not> truthy v)
     \<longrightarrow> process_line rt options line (collected, entryId) = (collected, entryId)) \<and>
   read_entries rt options
       (filter (\<lambda>line. \<not> ((\<forall>c \<in> set line. is_space_char c) \<or> JSON_parse rt line = None \<or>
          (\<exists>decoded v. JSON_parse rt line = Some decoded \<and>
             get_property rt decoded (contentField options) = Inr v \<and> \<not> truthy v))) lines)
     = read_entries rt options lines \<and>
   (\<exists>idx documents.
      buildIndex rt models filePath lines options = Inr (idx, documents) \<and>
      map doc_id (entries idx) = [0..<length (entries idx)] \<and>
      length (entries idx) = length (fst (read_entries rt options lines)) \<and>
      snd (read_entries rt options lines) = length (entries idx) \<and>
      entryCount (metadata idx) = length (entries idx))"
proof (intro conjI impI)
  assume "(\<forall>c \<in> set line. is_space_char c) \<or> JSON_parse rt line = None \<or>
      (\<exists>decoded v. JSON_parse rt line = Some decoded \<and>
         get_property rt decoded (contentField options) = Inr v \<and> \<not> truthy v)"
  then show "process_line rt options line (collected, entryId) = (collected, entryId)"
    by (rule process_line_skips)
next
  show "read_entries rt options
       (filter (\<lambda>line. \<not> ((\<forall>c \<in> set line. is_space_char c) \<or> JSON_parse rt line = None \<or>
          (\<exists>decoded v. JSON_parse rt line = Some decoded \<and>
             get_property rt decoded (contentField options) = Inr v \<and> \<not> truthy v))) lines)
     = read_entries rt options lines"
    unfolding read_entries_def
    by (rule fold_filter_skipped) (rule process_line_skips, simp)
next
  obtain m models' where m: "loadModel rt models (model options) = Inr (m, models')"
    using loadModel_total [of rt models "model options"] by blast
  show "\<exists>idx documents.
      buildIndex rt models filePath lines options = Inr (idx, documents) \<and>
      map doc_id (entries idx) = [0..<length (entries idx)] \<and>
      length (entries idx) = length (fst (read_entries rt options lines)) \<and>
      snd (read_entries rt options lines) = length (entries idx) \<and>
      entryCount (metadata idx) = length (entries idx)"
    using read_entries_ids [of rt options lines] read_entries_count [of rt options lines]
    by (simp add: buildIndex_eq [OF m] comp_def)
qed

theorem skipped_lines_consume_no_id_witness:
  "process_line example_runtime example_options (js ''   '') ([], 0) = ([], 0) \<and>
   (\<exists>idx documents.
      buildIndex example_runtime Map.empty (js ''db.jsonl'') example_lines example_options
        = Inr (idx, documents) \<and>
      map doc_id (entries idx) = [0, 1])"
proof -
  have blank: "\<forall>c \<in> set (js ''   ''). is_space_char c"
    by (simp add: js_def is_space_char_def)
  have two: "length (fst (read_entries example_runtime example_options example_lines)) = 2"
    by (simp add: example_eval)
  have upt: "[0..<2] = [0, 1 :: nat]"
    by code_simp
  from skipped_lines_consume_no_id
    [of "js ''   ''" example_runtime example_options "[]" 0 example_lines Map.empty "js ''db.jsonl''"]
    blank two upt
  show ?thesis by auto
qed

text \<open>
  C5, as the program has it.  In every persisted index a document carries a title
  embedding if and only if title-boost is enabled.  With title-boost enabled every
  document has one, also a document whose normalized title is empty: the provider's
  vector for its normalized title, or the zero vector of dimension 384 when the provider
  fails for that text.
\<close>

theorem titleEmbedding_iff_titleBoost:
  "\<exists>idx documents m models'.
     loadModel rt models (model options) = Inr (m, models') \<and>
     buildIndex rt models filePath lines options = Inr (idx, documents) \<and>
     length (entries idx) = length (fst (read_entries rt options lines)) \<and>
     (\<forall>e \<in> set (entries idx). (titleEmbedding e \<noteq> None) = titleBoost options) \<and>
     (\<forall>i < length (entries idx).
        titleEmbedding (entries idx ! i) =
          (if titleBoost options
           then Some (case featureExtraction rt (modelId m)
                             (processedTitle (fst (read_entries rt options lines) ! i)) of
                        Some result \<Rightarrow> result
                      | None \<Rightarrow> replicate 384 0)
           else None))"
proof -
  obtain m models' where m: "loadModel rt models (model options) = Inr (m, models')"
    using loadModel_total [of rt models "model options"] by blast
  show ?thesis
    by (rule exI, rule exI, rule exI [of _ m], rule exI [of _ models'])
       (auto simp: m buildIndex_eq [OF m] embedding_task_def zeroVector_def
          split: option.split if_splits)
qed

theorem titleEmbedding_iff_titleBoost_witness:
  "\<exists>idx documents.
     buildIndex example_runtime Map.empty (js ''db.jsonl'') example_lines example_options
       = Inr (idx, documents) \<and>
     length (entries idx) = 2 \<and>
     titleEmbedding (entries idx ! 0) \<noteq> None \<and>
     titleEmbedding (entries idx ! 1) = Some (replicate 384 0)"
proof -
  let ?es = "fst (read_entries example_runtime example_options example_lines)"
  have titles: "map processedTitle ?es = [js ''cats'', []]"
    by (simp add: example_eval)
  have len: "length ?es = 2"
    by (simp add: example_eval)
  have "processedTitle (?es ! 1) = map processedTitle ?es ! 1"
    using len by simp
  then have second: "processedTitle (?es ! 1) = []"
    unfolding titles by simp
  from titleEmbedding_iff_titleBoost
    [of example_runtime Map.empty example_options "js ''db.jsonl''" example_lines]
  obtain idx documents m models' where m:
    "loadModel example_runtime Map.empty (model example_options) = Inr (m, models')" and r:
    "buildIndex example_runtime Map.empty (js ''db.jsonl'') example_lines example_options
       = Inr (idx, documents)"
    "length (entries idx) = length ?es"
    "\<forall>e \<in> set (entries idx). (titleEmbedding e \<noteq> None) = titleBoost example_options"
    "\<forall>i < length (entries idx).
        titleEmbedding (entries idx ! i) =
          (if titleBoost example_options
           then Some (case featureExtraction example_runtime (modelId m)
                             (processedTitle (?es ! i)) of
                        Some result \<Rightarrow> result
                      | None \<Rightarrow> replicate 384 0)
           else None)"
    by (elim exE conjE) (rule that, assumption+)
  have boost: "titleBoost example_options"
    by (simp add: example_options_def)
  have "titleEmbedding (entries idx ! 1) = Some (replicate 384 0)"
    using r(4) [rule_format, of 1] r(2) len boost second
    by (simp add: example_runtime_def)
  moreover have "titleEmbedding (entries idx ! 0) \<noteq> None"
    using r(3) [rule_format, of "entries idx ! 0"] r(2) len boost by simp
  ultimately show ?thesis using r(1,2) len by auto
qed

text \<open>
  C5, as the specification states it, fails: with title-boost enabled, the record
  \<^verbatim>\<open>{"content":"loyal dogs"}\<close>, which has no title, is persisted with a title
  embedding (here the zero vector, because the provider of the example rejects the
  empty text).
\<close>

theorem empty_title_has_embedding_counterexample:
  \<open>titleBoost example_options \<and>
   (case buildIndex example_runtime Map.empty (js ''db.jsonl'')
           [js ''{"content":"loyal dogs"}''] example_options of
      Inr (idx, documents) \<Rightarrow> map (\<lambda>e. (title e, titleEmbedding e)) (entries idx)
    | Inl e \<Rightarrow> [])
   = [([], Some (replicate 384 0))]\<close>
proof -
  have m: "loadModel example_runtime Map.empty (model example_options)
      = Inr (\<lparr>modelId = Some (js ''sentence-transformers/all-MiniLM-L6-v2'')\<rparr>,
             [model example_options \<mapsto> \<lparr>modelId = Some (js ''sentence-transformers/all-MiniLM-L6-v2'')\<rparr>])"
    by (simp add: example_loadModel example_options_def)
  show ?thesis
    unfolding buildIndex_eq [OF m]
    by (simp add: example_eval embedding_task_def zeroVector_def)
qed

section \<open>Searching\<close>

lemma searcher_preprocessText_string:
  "\<exists>p. searcher_preprocessText rt (JString s) = Inr p"
  by (simp add: searcher_preprocessText_def Let_def)

lemma query_context_Inr:
  "\<exists>queryEmbedding allQueryTerms.
     query_context rt models idx query = Inr (queryEmbedding, allQueryTerms)"
proof -
  obtain p where p: "searcher_preprocessText rt (JString query) = Inr p"
    using searcher_preprocessText_string by blast
  obtain q where q: "searcher_preprocessText rt (JString (expandQuery rt query)) = Inr q"
    using searcher_preprocessText_string by blast
  show ?thesis
    by (simp add: query_context_def p q Let_def loadModel_cases split: option.split)
qed

text \<open>
  C10.  Searching a loaded index whose document list is empty returns the empty result
  list and raises nothing, for every query and all options: the callback that takes the
  maximum of the keyword scores is never run.
\<close>

theorem searchIndex_empty_index:
  assumes "index_json dir = Some idx" and "tfidf_json dir = Some tfidf" and "entries idx = []"
  shows "searchIndex rt models dir query options = Inr []"
proof -
  obtain qe terms where "query_context rt models idx query = Inr (qe, terms)"
    using query_context_Inr by blast
  then have "scored_results rt models idx tfidf query options = Inr []"
    by (simp add: scored_results_def assms enumerate_eq_zip)
  then show ?thesis
    by (simp add: searchIndex_def assms array_sort_def slice_to_def)
qed

theorem searchIndex_empty_index_witness:
  "searchIndex example_runtime Map.empty empty_index_dir (js ''feline pet'') example_search_options
     = Inr []"
  using searchIndex_empty_index
    [of empty_index_dir "\<lparr>metadata = example_metadata, entries = []\<rparr>" "\<lambda>term i. Num 0"]
  by (simp add: empty_index_dir_def)

section \<open>Text cleaning\<close>

lemma replace_special_chars:
  "c \<in> set (replace_special s) \<Longrightarrow> is_word_char c \<or> is_space_char c"
  by (auto simp: replace_special_def is_space_char_def split: if_splits)

lemma replace_space_runs_chars:
  "c \<in> set (replace_space_runs s) \<Longrightarrow> c = 32 \<or> (c \<in> set s \<and> \<not> is_space_char c)"
proof (induction s arbitrary: c rule: replace_space_runs.induct)
  case 1
  then show ?case by simp
next
  case (2 d ds)
  then show ?case
    by (auto split: if_splits dest: set_dropWhileD)
qed

lemma trim_chars: "c \<in> set (trim s) \<Longrightarrow> c \<in> set s"
proof -
  assume "c \<in> set (trim s)"
  then have "c \<in> set (dropWhile is_space_char (rev (dropWhile is_space_char s)))"
    by (simp add: trim_def)
  then have "c \<in> set (rev (dropWhile is_space_char s))"
    by (rule set_dropWhileD)
  then have "c \<in> set (dropWhile is_space_char s)" by simp
  then show ?thesis by (rule set_dropWhileD)
qed

lemma word_char_cases: "is_word_char c \<longleftrightarrow> is_alphanumeric c \<or> c = 95"
  by (auto simp: is_word_char_def is_alphanumeric_def)

lemma processed_chars:
  assumes "c \<in> set (processed rt text)"
  shows "is_alphanumeric c \<or> c = 95 \<or> c = 32"
proof -
  from assms have "c \<in> set (replace_space_runs (replace_special (toLowerCase rt text)))"
    unfolding processed_def by (rule trim_chars)
  then have "c = 32 \<or> (c \<in> set (replace_special (toLowerCase rt text)) \<and> \<not> is_space_char c)"
    by (rule replace_space_runs_chars)
  then show ?thesis
    using replace_special_chars [of c "toLowerCase rt text"] by (auto simp: word_char_cases)
qed

lemma join_space_chars:
  "c \<in> set (join_space parts) \<Longrightarrow> c = 32 \<or> (\<exists>p \<in> set parts. c \<in> set p)"
  by (induction parts rule: join_space.induct) auto

lemma preprocessText_chars:
  assumes tok: "\<forall>s t. t \<in> set (tokenize rt s) \<longrightarrow> set t \<subseteq> set s"
    and stop: "\<forall>ts. set (removeStopwords rt ts) \<subseteq> set ts"
    and lem: "\<forall>t l. stem rt t = Some l \<longrightarrow> (\<forall>c \<in> set l. is_alphanumeric c \<or> c = 95)"
    and out: "indexer_preprocessText rt (JString text) = Inr out"
    and c: "c \<in> set out"
  shows "is_alphanumeric c \<or> c = 95 \<or> c = 32"
proof (cases "text = []")
  case True
  with out c show ?thesis by (simp add: indexer_preprocessText_def)
next
  case False
  with out have "out = join_space (map (lemmatize rt) (removeStopwords rt (tokenize rt (processed rt text))))"
    by (simp add: indexer_preprocessText_def Let_def)
  with c join_space_chars
  consider "c = 32" | t where "t \<in> set (removeStopwords rt (tokenize rt (processed rt text)))"
        "c \<in> set (lemmatize rt t)"
    by fastforce
  then show ?thesis
  proof cases
    case 1
    then show ?thesis by simp
  next
    case 2
    from 2(1) stop have t: "t \<in> set (tokenize rt (processed rt text))" by blast
    show ?thesis
    proof (cases "stem rt t")
      case None
      with 2(2) have "c \<in> set t" by (simp add: lemmatize_def)
      with t tok have "c \<in> set (processed rt text)" by blast
      then show ?thesis by (rule processed_chars)
    next
      case (Some l)
      with 2(2) have "c \<in> set l" by (simp add: lemmatize_def)
      with Some lem show ?thesis by blast
    qed
  qed
qed

lemma replace_special_nth:
  "i < length s \<Longrightarrow>
     replace_special s ! i =
       (if is_alphanumeric (s ! i) \<or> s ! i = 95 \<or> is_space_char (s ! i) then s ! i else 32)"
  by (simp add: replace_special_def word_char_cases)

text \<open>
  C8, as the program has it.  The replacement step of the normalization replaces, one
  for one, every character that is neither an ASCII letter or digit, nor the underscore,
  nor whitespace with a space and leaves the other characters as they are (the class
  \<^verbatim>\<open>\w\<close> of the regular expression contains the underscore).  After the whitespace
  runs are collapsed and the text is trimmed, the text handed to the tokenizer holds only
  ASCII letters, digits, underscores and spaces; and so does the normalized output,
  provided that the tokenizer and the stopword filter return only characters and tokens
  they were given and that the lemmatizer returns only letters, digits and underscores.
\<close>

theorem normalization_keeps_word_chars:
  "length (replace_special s) = length s \<and>
   (\<forall>i < length s.
      replace_special s ! i =
        (if is_alphanumeric (s ! i) \<or> s ! i = 95 \<or> is_space_char (s ! i) then s ! i else 32)) \<and>
   (\<forall>c \<in> set (processed rt text). is_alphanumeric c \<or> c = 95 \<or> c = 32) \<and>
   ((\<forall>s t. t \<in> set (tokenize rt s) \<longrightarrow> set t \<subseteq> set s) \<and>
    (\<forall>ts. set (removeStopwords rt ts) \<subseteq> set ts) \<and>
    (\<forall>t l. stem rt t = Some l \<longrightarrow> (\<forall>c \<in> set l. is_alphanumeric c \<or> c = 95))
    \<longrightarrow> (\<forall>out. indexer_preprocessText rt (JString text) = Inr out
           \<longrightarrow> (\<forall>c \<in> set out. is_alphanumeric c \<or> c = 95 \<or> c = 32)))"
proof (intro conjI allI impI ballI)
  show "length (replace_special s) = length s" by (simp add: replace_special_def)
next
  fix i assume "i < length s"
  then show "replace_special s ! i =
        (if is_alphanumeric (s ! i) \<or> s ! i = 95 \<or> is_space_char (s ! i) then s ! i else 32)"
    by (rule replace_special_nth)
next
  fix c assume "c \<in> set (processed rt text)"
  then show "is_alphanumeric c \<or> c = 95 \<or> c = 32" by (rule processed_chars)
next
  fix out c
  assume "(\<forall>s t. t \<in> set (tokenize rt s) \<longrightarrow> set t \<subseteq> set s) \<and>
    (\<forall>ts. set (removeStopwords rt ts) \<subseteq> set ts) \<and>
    (\<forall>t l. stem rt t = Some l \<longrightarrow> (\<forall>c \<in> set l. is_alphanumeric c \<or> c = 95))"
    and "indexer_preprocessText rt (JString text) = Inr out" and "c \<in> set out"
  then show "is_alphanumeric c \<or> c = 95 \<or> c = 32"
    using preprocessText_chars [of rt _ out c] by blast
qed

lemma word_tokens_acc_chars:
  "t \<in> set (word_tokens_acc token s) \<Longrightarrow> set t \<subseteq> set token \<union> set s"
  by (induction token s rule: word_tokens_acc.induct) (auto split: if_splits)

lemma word_tokens_chars: "t \<in> set (word_tokens s) \<Longrightarrow> set t \<subseteq> set s"
  using word_tokens_acc_chars [of t "[]" s] by (simp add: word_tokens_def)

lemma example_runtime_tokens:
  "(\<forall>s t. t \<in> set (tokenize example_runtime s) \<longrightarrow> set t \<subseteq> set s) \<and>
   (\<forall>ts. set (removeStopwords example_runtime ts) \<subseteq> set ts) \<and>
   (\<forall>t l. stem example_runtime t = Some l \<longrightarrow> (\<forall>c \<in> set l. is_alphanumeric c \<or> c = 95))"
proof (intro conjI allI impI)
  fix s t assume "t \<in> set (tokenize example_runtime s)"
  then have "t \<in> set (word_tokens s)" by (simp add: example_runtime_def)
  then show "set t \<subseteq> set s" by (rule word_tokens_chars)
next
  fix ts show "set (removeStopwords example_runtime ts) \<subseteq> set ts"
    by (simp add: example_runtime_def)
next
  fix t l assume "stem example_runtime t = Some l"
  then show "\<forall>c \<in> set l. is_alphanumeric c \<or> c = 95"
    by (simp add: example_runtime_def)
qed

theorem normalization_keeps_word_chars_witness:
  "replace_special (js ''a_b! c'') ! 3 = 32 \<and>
   processed example_runtime (js ''A_b!  C'') = js ''a_b c'' \<and>
   indexer_preprocessText example_runtime (JString (js ''A_b!  C'')) = Inr (js ''a_b c'') \<and>
   (is_alphanumeric 97 \<or> (97 :: nat) = 95 \<or> (97 :: nat) = 32)"
proof -
  note T = normalization_keeps_word_chars [of "js ''a_b! c''" example_runtime "js ''A_b!  C''"]
  have ev: "processed example_runtime (js ''A_b!  C'') = js ''a_b c''"
    "indexer_preprocessText example_runtime (JString (js ''A_b!  C'')) = Inr (js ''a_b c'')"
    by (simp_all add: example_eval)
  have mem: "97 \<in> set (js ''a_b c'')"
    by (simp add: js_def)
  have "replace_special (js ''a_b! c'') ! 3 =
      (if is_alphanumeric (js ''a_b! c'' ! 3) \<or> js ''a_b! c'' ! 3 = 95 \<or> is_space_char (js ''a_b! c'' ! 3)
       then js ''a_b! c'' ! 3 else 32)"
    by (rule T [THEN conjunct2, THEN conjunct1, rule_format]) (simp add: js_def)
  then have "replace_special (js ''a_b! c'') ! 3 = 32"
    by (simp add: js_def is_alphanumeric_def is_space_char_def)
  moreover have "is_alphanumeric 97 \<or> (97 :: nat) = 95 \<or> (97 :: nat) = 32"
    by (rule T [THEN conjunct2, THEN conjunct2, THEN conjunct2, rule_format,
                OF example_runtime_tokens ev(2) mem])
  ultimately show ?thesis using ev by simp
qed

text \<open>
  C8, as the specification states it, fails: the underscore is neither alphanumeric nor
  whitespace, yet the replacement step keeps it and it survives into the normalized
  output.
\<close>

theorem underscore_survives_counterexample:
  "\<not> is_alphanumeric 95 \<and> \<not> is_space_char 95 \<and>
   replace_special (js ''a_b'') = js ''a_b'' \<and>
   95 \<in> set (processed example_runtime (js ''a_b'')) \<and>
   indexer_preprocessText example_runtime (JString (js ''a_b'')) = Inr (js ''a_b'')"
  by (simp add: example_eval is_alphanumeric_def)

section \<open>Scoring and ranking\<close>

lemma scored_results_eq:
  assumes "query_context rt models idx query = Inr (queryEmbedding, terms)"
  shows "scored_results rt models idx tfidf query options =
     Inr (map (\<lambda>(i, entry).
                  score_entry rt query (titleBoost (metadata idx)) options queryEmbedding
                    (tfidf_scores tfidf terms (length (entries idx))) i entry)
            (enumerate 0 (entries idx)))"
  by (simp add: scored_results_def assms Let_def)

lemma scored_results_nth:
  assumes "query_context rt models idx query = Inr (queryEmbedding, terms)"
    and "scored_results rt models idx tfidf query options = Inr results"
  shows "length results = length (entries idx)"
    and "i < length (entries idx) \<Longrightarrow>
         results ! i = score_entry rt query (titleBoost (metadata idx)) options queryEmbedding
                         (tfidf_scores tfidf terms (length (entries idx))) i (entries idx ! i)"
  using assms(2) unfolding scored_results_eq [OF assms(1)]
  by (auto simp: nth_enumerate_eq)

lemma map_snd_enumerate_comp: "map (\<lambda>p. f (snd p)) (enumerate n xs) = map f xs"
proof -
  have "map (\<lambda>p. f (snd p)) (enumerate n xs) = map f (map snd (enumerate n xs))"
    by (simp only: map_map comp_def)
  then show ?thesis by (simp only: map_snd_enumerate)
qed

lemma score_entry_fields:
  "doc_id (score_entry rt query boost options queryEmbedding tfidfScores i entry) = doc_id entry"
  "relevance (score_entry rt query boost options queryEmbedding tfidfScores i entry)
     = score (score_entry rt query boost options queryEmbedding tfidfScores i entry)"
  "keywordRelevance (score_entry rt query boost options queryEmbedding tfidfScores i entry)
     = normalize_tfidf tfidfScores (score_at tfidfScores i)"
  by (simp_all add: score_entry_def Let_def)

subsection \<open>The sort\<close>

lemma js_ge_refl: "a \<noteq> NaN \<Longrightarrow> js_ge a a"
  by (cases a) simp_all

lemma js_ge_trans: "js_ge a b \<Longrightarrow> js_ge b c \<Longrightarrow> js_ge a c"
  by (cases a; cases b; cases c) simp_all

lemma js_ge_antisym: "js_ge a b \<Longrightarrow> js_ge b a \<Longrightarrow> a = b"
  by (cases a; cases b) simp_all

lemma js_ge_total: "a \<noteq> NaN \<Longrightarrow> b \<noteq> NaN \<Longrightarrow> js_ge a b \<or> js_ge b a"
  by (cases a; cases b) auto

lemma js_ge_not_NaN: "js_ge a b \<Longrightarrow> a \<noteq> NaN"
  by (cases a; cases b) simp_all

text \<open>
  On numbers other than \<^verbatim>\<open>NaN\<close> the comparator \<^verbatim>\<open>b.score - a.score\<close> is positive
  exactly when \<open>a\<close> is not at least \<open>b\<close>; the difference of two equal infinities is
  \<^verbatim>\<open>NaN\<close>, which the sort reads as zero.
\<close>

lemma js_positive_sub:
  "a \<noteq> NaN \<Longrightarrow> b \<noteq> NaN \<Longrightarrow> js_positive (js_sub b a) \<longleftrightarrow> \<not> js_ge a b"
  by (cases a; cases b) (auto simp: js_sub_def)

lemma set_insert_sorted: "set (insert_sorted cmp x ys) = insert x (set ys)"
  by (induction ys) auto

lemma length_insert_sorted: "length (insert_sorted cmp x ys) = Suc (length ys)"
  by (induction ys) auto

lemma array_sort_Cons: "array_sort cmp (x # xs) = insert_sorted cmp x (array_sort cmp xs)"
  by (simp add: array_sort_def)

lemma set_array_sort: "set (array_sort cmp xs) = set xs"
  by (induction xs) (simp_all add: array_sort_Cons set_insert_sorted, simp add: array_sort_def)

lemma sorted_insert_sorted:
  assumes "sorted_wrt (\<lambda>a b. js_ge (score a) (score b)) ys"
    and "score x \<noteq> NaN" and "\<forall>y \<in> set ys. score y \<noteq> NaN"
  shows "sorted_wrt (\<lambda>a b. js_ge (score a) (score b))
           (insert_sorted (\<lambda>a b. js_sub (score b) (score a)) x ys)"
  using assms
proof (induction ys)
  case Nil
  then show ?case by simp
next
  case (Cons y ys)
  have ny: "score y \<noteq> NaN" using Cons.prems(3) by simp
  show ?case
  proof (cases "js_positive (js_sub (score y) (score x))")
    case True
    then have "\<not> js_ge (score x) (score y)"
      using js_positive_sub [OF Cons.prems(2) ny] by simp
    then have "js_ge (score y) (score x)"
      using js_ge_total [OF Cons.prems(2) ny] by blast
    moreover have "sorted_wrt (\<lambda>a b. js_ge (score a) (score b))
                     (insert_sorted (\<lambda>a b. js_sub (score b) (score a)) x ys)"
      using Cons by simp
    ultimately show ?thesis
      using True Cons.prems(1) by (auto simp: set_insert_sorted)
  next
    case False
    then have xy: "js_ge (score x) (score y)"
      using js_positive_sub [OF Cons.prems(2) ny] by simp
    have "js_ge (score x) (score z)" if "z \<in> set ys" for z
    proof -
      have "js_ge (score y) (score z)" using that Cons.prems(1) by auto
      with xy show ?thesis by (rule js_ge_trans)
    qed
    with False xy Cons.prems(1) show ?thesis by simp
  qed
qed

lemma sorted_array_sort:
  assumes "\<forall>x \<in> set xs. score x \<noteq> NaN"
  shows "sorted_wrt (\<lambda>a b. js_ge (score a) (score b))
           (array_sort (\<lambda>a b. js_sub (score b) (score a)) xs)"
  using assms
proof (induction xs)
  case Nil
  then show ?case by (simp add: array_sort_def)
next
  case (Cons x xs)
  then show ?case by (simp add: array_sort_Cons sorted_insert_sorted set_array_sort)
qed

lemma stable_insert_sorted:
  assumes "sorted_wrt (\<lambda>a b. js_gt (score a) (score b) \<or> (score a = score b \<and> doc_id a < doc_id b)) ys"
    and "\<forall>y \<in> set ys. doc_id x < doc_id y"
    and "score x \<noteq> NaN" and "\<forall>y \<in> set ys. score y \<noteq> NaN"
  shows "sorted_wrt (\<lambda>a b. js_gt (score a) (score b) \<or> (score a = score b \<and> doc_id a < doc_id b))
           (insert_sorted (\<lambda>a b. js_sub (score b) (score a)) x ys)"
  using assms
proof (induction ys)
  case Nil
  then show ?case by simp
next
  case (Cons y ys)
  have ny: "score y \<noteq> NaN" using Cons.prems(4) by simp
  show ?case
  proof (cases "js_positive (js_sub (score y) (score x))")
    case True
    then have n: "\<not> js_ge (score x) (score y)"
      using js_positive_sub [OF Cons.prems(3) ny] by simp
    then have "js_ge (score y) (score x)"
      using js_ge_total [OF Cons.prems(3) ny] by blast
    with n have "js_gt (score y) (score x)" by (simp add: js_gt_def)
    moreover have "sorted_wrt (\<lambda>a b. js_gt (score a) (score b) \<or> (score a = score b \<and> doc_id a < doc_id b))
                     (insert_sorted (\<lambda>a b. js_sub (score b) (score a)) x ys)"
      using Cons by simp
    ultimately show ?thesis
      using True Cons.prems(1) by (auto simp: set_insert_sorted)
  next
    case False
    then have xy: "js_ge (score x) (score y)"
      using js_positive_sub [OF Cons.prems(3) ny] by simp
    have "js_gt (score x) (score z) \<or> (score x = score z \<and> doc_id x < doc_id z)"
      if "z \<in> set (y # ys)" for z
    proof -
      have "js_ge (score y) (score z)"
      proof (cases "z = y")
        case True
        then show ?thesis using ny by (simp add: js_ge_refl)
      next
        case False
        with that Cons.prems(1) have "js_gt (score y) (score z) \<or> score y = score z" by auto
        then show ?thesis using ny by (auto simp: js_gt_def js_ge_refl)
      qed
      with xy have xz: "js_ge (score x) (score z)" by (rule js_ge_trans)
      have ids: "doc_id x < doc_id z" using that Cons.prems(2) by auto
      show ?thesis
      proof (cases "js_ge (score z) (score x)")
        case True
        with xz have "score x = score z" by (rule js_ge_antisym)
        with ids show ?thesis by simp
      next
        case False
        with xz show ?thesis by (simp add: js_gt_def)
      qed
    qed
    with False Cons.prems(1) show ?thesis by simp
  qed
qed

lemma stable_array_sort:
  assumes "sorted_wrt (<) (map doc_id xs)" and "\<forall>x \<in> set xs. score x \<noteq> NaN"
  shows "sorted_wrt (\<lambda>a b. js_gt (score a) (score b) \<or> (score a = score b \<and> doc_id a < doc_id b))
           (array_sort (\<lambda>a b. js_sub (score b) (score a)) xs)"
  using assms
proof (induction xs)
  case Nil
  then show ?case by (simp add: array_sort_def)
next
  case (Cons x xs)
  then show ?case
    by (simp add: array_sort_Cons stable_insert_sorted set_array_sort)
qed

lemma slice_to_props:
  "set (slice_to xs l) \<subseteq> set xs"
  "sorted_wrt R xs \<Longrightarrow> sorted_wrt R (slice_to xs l)"
  "0 \<le> l \<Longrightarrow> int (length (slice_to xs l)) \<le> l"
  by (auto simp: slice_to_def sorted_wrt_take dest: in_set_takeD)

text \<open>Every index that \<^verbatim>\<open>buildIndex\<close> writes has its entries in ascending order of id.\<close>

lemma buildIndex_ids_ascending:
  assumes "buildIndex rt models filePath lines options = Inr (idx, documents)"
  shows "sorted_wrt (<) (map doc_id (entries idx))"
proof -
  obtain m models' where m: "loadModel rt models (model options) = Inr (m, models')"
    using loadModel_total [of rt models "model options"] by blast
  from assms have "map doc_id (entries idx) = map doc_id (fst (read_entries rt options lines))"
    unfolding buildIndex_eq [OF m] by (auto simp: comp_def)
  then show ?thesis
    by (simp add: read_entries_ids)
qed

text \<open>
  C2.  For every query, every loaded index and keyword statistics, every threshold and
  every limit, the search returns a list in which every result has a relevance that is
  at least the threshold (so none below it, and none that is \<^verbatim>\<open>NaN\<close>) and that is
  sorted in descending order of aggregate score; when the entries of the index are in
  ascending order of document id (as \<^verbatim>\<open>buildIndex\<close> writes them), results of equal score
  are in ascending order of document id; and when the limit is not negative (the input
  contract of the scorer), the list has at most \<open>limit\<close> results.
\<close>

theorem searchIndex_filtered_sorted_limited:
  assumes "index_json dir = Some idx" and "tfidf_json dir = Some tfidf"
  shows "\<exists>results.
     searchIndex rt models dir query options = Inr results \<and>
     (\<forall>r \<in> set results.
        js_ge (relevance r) (Num (threshold options)) \<and>
        \<not> js_lt (relevance r) (Num (threshold options))) \<and>
     sorted_wrt (\<lambda>a b. js_ge (score a) (score b)) results \<and>
     (sorted_wrt (<) (map doc_id (entries idx)) \<longrightarrow>
        sorted_wrt (\<lambda>a b. js_gt (score a) (score b) \<or> (score a = score b \<and> doc_id a < doc_id b))
          results) \<and>
     (0 \<le> limit options \<longrightarrow> int (length results) \<le> limit options)"
proof -
  obtain qe terms where qc: "query_context rt models idx query = Inr (qe, terms)"
    using query_context_Inr by blast
  define scored where "scored =
     map (\<lambda>(i, entry). score_entry rt query (titleBoost (metadata idx)) options qe
                          (tfidf_scores tfidf terms (length (entries idx))) i entry)
       (enumerate 0 (entries idx))"
  define kept where
    "kept = filter (\<lambda>result. js_ge (relevance result) (Num (threshold options))) scored"
  define sorted where "sorted = array_sort (\<lambda>a b. js_sub (score b) (score a)) kept"
  have res: "searchIndex rt models dir query options = Inr (slice_to sorted (limit options))"
    by (simp add: searchIndex_def assms scored_results_eq [OF qc] scored_def kept_def sorted_def)
  have ids: "map doc_id scored = map doc_id (entries idx)"
    by (simp add: scored_def score_entry_fields comp_def case_prod_unfold map_snd_enumerate_comp)
  have rel: "relevance r = score r" if "r \<in> set scored" for r
    using that by (auto simp: scored_def score_entry_fields)
  have num: "\<forall>r \<in> set kept. score r \<noteq> NaN"
  proof
    fix r assume r: "r \<in> set kept"
    then have "js_ge (relevance r) (Num (threshold options))" by (simp add: kept_def)
    then have "relevance r \<noteq> NaN" by (rule js_ge_not_NaN)
    moreover have "relevance r = score r" using r rel by (simp add: kept_def)
    ultimately show "score r \<noteq> NaN" by simp
  qed
  have thr: "\<forall>r \<in> set (slice_to sorted (limit options)).
      js_ge (relevance r) (Num (threshold options)) \<and>
      \<not> js_lt (relevance r) (Num (threshold options))"
    using slice_to_props(1) [of sorted "limit options"]
    by (auto simp: sorted_def kept_def set_array_sort js_lt_def js_gt_def)
  have desc: "sorted_wrt (\<lambda>a b. js_ge (score a) (score b)) (slice_to sorted (limit options))"
    unfolding sorted_def by (intro slice_to_props(2) sorted_array_sort num)
  have ties: "sorted_wrt (\<lambda>a b. js_gt (score a) (score b) \<or> (score a = score b \<and> doc_id a < doc_id b))
                (slice_to sorted (limit options))"
    if "sorted_wrt (<) (map doc_id (entries idx))"
  proof -
    have "sorted_wrt (<) (map doc_id kept)"
      using that unfolding kept_def ids [symmetric]
      by (simp add: sorted_wrt_map sorted_wrt_filter)
    then show ?thesis
      unfolding sorted_def by (intro slice_to_props(2) stable_array_sort num)
  qed
  show ?thesis
    using res thr desc ties slice_to_props(3) [of "limit options" sorted] by blast
qed

subsection \<open>Keyword normalization\<close>

















subsection \<open>The example search, step by step\<close>

lemma example_cosines:
  "calculateCosineSimilarity [0, 1] [1, 0] = 0"
  "calculateCosineSimilarity [0, 1] [0, 1] = 1"
  "calculateCosineSimilarity [0, 1] (replicate 384 0) = 0"
  by (simp_all add: calculateCosineSimilarity_def upt_rec numeral_2_eq_2)

lemma upt_0_2: "[0..<2] = [0, 1 :: nat]"
  by code_simp

lemma example_query_context:
  "query_context example_runtime Map.empty example_index (js ''loyal dogs'')
     = Inr ([0, 1], [js ''loyal'', js ''dogs''])"
  "query_context example_runtime Map.empty example_index (js ''zebra'')
     = Inr ([0, 1], [js ''zebra''])"
  "query_context example_runtime Map.empty example_index (js ''constructor'')
     = Inr ([0, 1], [js ''constructor''])"
  by (simp_all add: query_context_def searcher_preprocessText_def example_eval loadModel_cases
        example_index_def example_metadata_def generateEmbedding_def expandQuery_def
        expand_token_def add_each_def unique_def split_space_def Let_def)

lemma example_tfidf_scores:
  "tfidf_scores example_tfidf [js ''loyal'', js ''dogs''] (Suc (Suc 0)) = [Num 0, Num 1]"
  "tfidf_scores example_tfidf [js ''zebra''] (Suc (Suc 0)) = [Num 0, Num 0]"
  "tfidf_scores natural_tfidf [js ''constructor''] (Suc (Suc 0)) = [NaN, NaN]"
  by (simp_all add: tfidf_scores_def upt_0_2 example_tfidf_def natural_tfidf_def
        object_prototype_methods_def js_def flip: numeral_2_eq_2)

lemma example_scored_results:
  "scored_results example_runtime Map.empty example_index example_tfidf (js ''loyal dogs'') options =
     Inr [score_entry example_runtime (js ''loyal dogs'') True options [0, 1] [Num 0, Num 1] 0
            (entries example_index ! 0),
          score_entry example_runtime (js ''loyal dogs'') True options [0, 1] [Num 0, Num 1] 1
            (entries example_index ! 1)]"
  unfolding scored_results_eq [OF example_query_context(1)]
  by (simp add: example_index_def example_metadata_def example_tfidf_scores enumerate_eq_zip upt_0_2)

lemma example_normalize:
  "normalize_tfidf [Num 0, Num 1] (score_at [Num 0, Num 1] 0) = Num 0"
  "normalize_tfidf [Num 0, Num 1] (score_at [Num 0, Num 1] (Suc 0)) = Num 1"
  by (simp_all add: normalize_tfidf_def score_at_def or_else_def Math_max_def)

lemma example_scores:
  "score (score_entry example_runtime (js ''loyal dogs'') True (example_search_options\<lparr>threshold := 1 / 10\<rparr>)
            [0, 1] [Num 0, Num 1] 0 (entries example_index ! 0)) = Num (3 / 20)"
  "score (score_entry example_runtime (js ''loyal dogs'') True (example_search_options\<lparr>threshold := 1 / 10\<rparr>)
            [0, 1] [Num 0, Num 1] (Suc 0) (entries example_index ! Suc 0)) = Num 1"
  by (simp_all add: score_entry_def Let_def example_index_def example_cosines example_normalize
        example_search_options_def example_runtime_def ascii_lower_def js_def)

subsection \<open>The aggregate score\<close>

text \<open>
  C1.  For every document \<open>d\<close> scored during a search, the aggregate score is
  \<open>contentSim * semanticWeight + normalizedKeyword * (1 - semanticWeight)
      + ((titleSim + titleStringSim) / 2) * titleWeight\<close>,
  where \<open>contentSim\<close> is the cosine of the query embedding and the content embedding of
  \<open>d\<close>, \<open>titleSim\<close> is \<open>0\<close> unless \<open>d\<close> has a title embedding and title-boost is enabled,
  and \<open>titleStringSim\<close> is \<open>0\<close> when the title of \<open>d\<close> is empty.  The relevance is the
  same number.  The sum and the product with \<open>normalizedKeyword\<close> are those of the numbers
  of the program; whenever \<open>normalizedKeyword\<close> is a finite number, they are the sum and
  the product of real numbers.
\<close>

theorem aggregate_score:
  "\<exists>queryEmbedding terms results.
     query_context rt models idx query = Inr (queryEmbedding, terms) \<and>
     scored_results rt models idx tfidf query options = Inr results \<and>
     length results = length (entries idx) \<and>
     (\<forall>i < length (entries idx).
        (let d = entries idx ! i;
             r = results ! i;
             raw = tfidf_scores tfidf terms (length (entries idx));
             contentSim = calculateCosineSimilarity queryEmbedding (contentEmbedding d);
             titleSim =
               (case titleEmbedding d of
                  Some v \<Rightarrow>
                    if titleBoost (metadata idx) then calculateCosineSimilarity queryEmbedding v else 0
                | None \<Rightarrow> 0);
             titleStringSim =
               (if title d = [] then 0
                else similarity rt (toLowerCase rt query) (toLowerCase rt (title d)));
             normalizedKeyword = normalize_tfidf raw (score_at raw i)
         in score r = js_add (js_add (Num (contentSim * semanticWeight options))
                                     (js_mul normalizedKeyword (Num (1 - semanticWeight options))))
                             (Num (((titleSim + titleStringSim) / 2) * titleWeight options)) \<and>
            (\<forall>k. normalizedKeyword = Num k \<longrightarrow>
               score r = Num (contentSim * semanticWeight options
                              + k * (1 - semanticWeight options)
                              + ((titleSim + titleStringSim) / 2) * titleWeight options)) \<and>
            relevance r = score r \<and>
            doc_id r = doc_id d \<and>
            semanticSimilarity r = contentSim \<and>
            keywordRelevance r = normalizedKeyword \<and>
            titleRelevance r = titleSim \<and>
            (titleEmbedding d = None \<or> \<not> titleBoost (metadata idx) \<longrightarrow> titleSim = 0) \<and>
            (title d = [] \<longrightarrow> titleStringSim = 0)))"
proof -
  obtain qe terms where qc: "query_context rt models idx query = Inr (qe, terms)"
    using query_context_Inr by blast
  obtain results where res: "scored_results rt models idx tfidf query options = Inr results"
    using scored_results_eq [OF qc] by blast
  note nth = scored_results_nth [OF qc res]
  show ?thesis
  proof (intro exI conjI allI impI)
    show "query_context rt models idx query = Inr (qe, terms)" by (rule qc)
    show "scored_results rt models idx tfidf query options = Inr results" by (rule res)
    show "length results = length (entries idx)" by (rule nth(1))
    fix i assume "i < length (entries idx)"
    from nth(2) [OF this]
    show "let d = entries idx ! i;
             r = results ! i;
             raw = tfidf_scores tfidf terms (length (entries idx));
             contentSim = calculateCosineSimilarity qe (contentEmbedding d);
             titleSim =
               (case titleEmbedding d of
                  Some v \<Rightarrow>
                    if titleBoost (metadata idx) then calculateCosineSimilarity qe v else 0
                | None \<Rightarrow> 0);
             titleStringSim =
               (if title d = [] then 0
                else similarity rt (toLowerCase rt query) (toLowerCase rt (title d)));
             normalizedKeyword = normalize_tfidf raw (score_at raw i)
         in score r = js_add (js_add (Num (contentSim * semanticWeight options))
                                     (js_mul normalizedKeyword (Num (1 - semanticWeight options))))
                             (Num (((titleSim + titleStringSim) / 2) * titleWeight options)) \<and>
            (\<forall>k. normalizedKeyword = Num k \<longrightarrow>
               score r = Num (contentSim * semanticWeight options
                              + k * (1 - semanticWeight options)
                              + ((titleSim + titleStringSim) / 2) * titleWeight options)) \<and>
            relevance r = score r \<and>
            doc_id r = doc_id d \<and>
            semanticSimilarity r = contentSim \<and>
            keywordRelevance r = normalizedKeyword \<and>
            titleRelevance r = titleSim \<and>
            (titleEmbedding d = None \<or> \<not> titleBoost (metadata idx) \<longrightarrow> titleSim = 0) \<and>
            (title d = [] \<longrightarrow> titleStringSim = 0)"
      by (auto simp: score_entry_def Let_def split: option.split)
  qed
qed

lemma example_title_match:
  "similarity example_runtime (toLowerCase example_runtime (js ''loyal dogs''))
     (toLowerCase example_runtime (js ''Cats'')) = 0"
  by (simp add: example_runtime_def ascii_lower_def js_def)

lemma example_doc_ids:
  "doc_id (entries example_index ! 0) = 0" "doc_id (entries example_index ! Suc 0) = Suc 0"
  by (simp_all add: example_index_def)

theorem aggregate_score_witness:
  "\<exists>results.
     scored_results example_runtime Map.empty example_index example_tfidf (js ''loyal dogs'')
       (example_search_options\<lparr>threshold := 1 / 10\<rparr>) = Inr results \<and>
     length results = 2 \<and>
     score (results ! 0) = Num (3 / 20) \<and> titleRelevance (results ! 0) = 1 \<and>
     score (results ! 1) = Num 1 \<and> semanticSimilarity (results ! 1) = 1"
proof -
  let ?options = "example_search_options\<lparr>threshold := 1 / 10\<rparr>"
  from aggregate_score
    [of example_runtime Map.empty example_index "js ''loyal dogs''" example_tfidf ?options]
  obtain qe terms results where
    qc: "query_context example_runtime Map.empty example_index (js ''loyal dogs'') = Inr (qe, terms)"
    and res: "scored_results example_runtime Map.empty example_index example_tfidf
                (js ''loyal dogs'') ?options = Inr results"
    and len: "length results = length (entries example_index)"
    and all: "\<forall>i < length (entries example_index).
        (let d = entries example_index ! i;
             r = results ! i;
             raw = tfidf_scores example_tfidf terms (length (entries example_index));
             contentSim = calculateCosineSimilarity qe (contentEmbedding d);
             titleSim =
               (case titleEmbedding d of
                  Some v \<Rightarrow>
                    if titleBoost (metadata example_index) then calculateCosineSimilarity qe v else 0
                | None \<Rightarrow> 0);
             titleStringSim =
               (if title d = [] then 0
                else similarity example_runtime (toLowerCase example_runtime (js ''loyal dogs''))
                       (toLowerCase example_runtime (title d)));
             normalizedKeyword = normalize_tfidf raw (score_at raw i)
         in score r = js_add (js_add (Num (contentSim * semanticWeight ?options))
                                     (js_mul normalizedKeyword (Num (1 - semanticWeight ?options))))
                             (Num (((titleSim + titleStringSim) / 2) * titleWeight ?options)) \<and>
            (\<forall>k. normalizedKeyword = Num k \<longrightarrow>
               score r = Num (contentSim * semanticWeight ?options
                              + k * (1 - semanticWeight ?options)
                              + ((titleSim + titleStringSim) / 2) * titleWeight ?options)) \<and>
            relevance r = score r \<and>
            doc_id r = doc_id d \<and>
            semanticSimilarity r = contentSim \<and>
            keywordRelevance r = normalizedKeyword \<and>
            titleRelevance r = titleSim \<and>
            (titleEmbedding d = None \<or> \<not> titleBoost (metadata example_index) \<longrightarrow> titleSim = 0) \<and>
            (title d = [] \<longrightarrow> titleStringSim = 0))"
    by (elim exE conjE) (rule that, assumption+)
  from qc have qe: "qe = [0, 1]" and terms: "terms = [js ''loyal'', js ''dogs'']"
    by (simp_all add: example_query_context)
  have n: "length (entries example_index) = Suc (Suc 0)"
    by (simp add: example_index_def)
  have "score (results ! 0) = Num (3 / 20) \<and> titleRelevance (results ! 0) = 1"
    using all [rule_format, of 0]
    by (simp add: n qe terms Let_def example_tfidf_scores example_normalize example_cosines
          example_index_def example_metadata_def example_search_options_def
          example_title_match)
  moreover have "score (results ! 1) = Num 1 \<and> semanticSimilarity (results ! 1) = 1"
    using all [rule_format, of 1]
    by (simp add: n qe terms Let_def example_tfidf_scores example_normalize example_cosines
          example_index_def example_metadata_def example_search_options_def)
  ultimately show ?thesis using res len n by auto
qed

subsection \<open>Keyword normalization on the examples\<close>




subsection \<open>The example search, filtered and ranked\<close>

theorem searchIndex_filtered_sorted_limited_witness:
  "\<exists>results.
     searchIndex example_runtime Map.empty example_index_dir (js ''loyal dogs'')
       (example_search_options\<lparr>threshold := 1 / 10\<rparr>) = Inr results \<and>
     map doc_id results = [1, 0] \<and> map score results = [Num 1, Num (3 / 20)] \<and>
     sorted_wrt (\<lambda>a b. js_gt (score a) (score b) \<or> (score a = score b \<and> doc_id a < doc_id b))
       results \<and>
     int (length results) \<le> 10"
proof -
  let ?options = "example_search_options\<lparr>threshold := 1 / 10\<rparr>"
  have dir: "index_json example_index_dir = Some example_index"
    "tfidf_json example_index_dir = Some example_tfidf"
    by (simp_all add: example_index_dir_def)
  have ids: "sorted_wrt (<) (map doc_id (entries example_index))"
    by (simp add: example_index_def)
  have lim: "0 \<le> limit ?options" "limit ?options = 10"
    by (simp_all add: example_search_options_def)
  from searchIndex_filtered_sorted_limited [OF dir,
      of example_runtime Map.empty "js ''loyal dogs''" ?options]
  obtain results where
    res: "searchIndex example_runtime Map.empty example_index_dir (js ''loyal dogs'') ?options
            = Inr results"
    and ties: "sorted_wrt (<) (map doc_id (entries example_index)) \<longrightarrow>
        sorted_wrt (\<lambda>a b. js_gt (score a) (score b) \<or> (score a = score b \<and> doc_id a < doc_id b))
          results"
    and bound: "0 \<le> limit ?options \<longrightarrow> int (length results) \<le> limit ?options"
    by (elim exE conjE) (rule that, assumption+)
  have thr: "threshold ?options = 1 / 10"
    by (simp add: example_search_options_def)
  have ev: "map_sum id (map (\<lambda>r. (doc_id r, score r)))
     (searchIndex example_runtime Map.empty example_index_dir (js ''loyal dogs'') ?options)
     = Inr [(1, Num 1), (0, Num (3 / 20))]"
    by (simp add: searchIndex_def dir example_scored_results example_scores example_doc_ids
          array_sort_def slice_to_def score_entry_fields thr lim(2) js_sub_def)
  from ev res have "map doc_id results = [1, 0]" "map score results = [Num 1, Num (3 / 20)]"
    by (auto simp: comp_def)
  with res ties bound ids lim show ?thesis by auto
qed

end
